theory Spec2Isabelle
  imports Main
begin

section \<open>Values, errors and the library functions the module calls\<close>

text \<open>
  The module \<^verbatim>\<open>tap_marketo/sync.py\<close> works on JSON-like Python values. The scalars it
  inspects are modelled exactly (\<^verbatim>\<open>None\<close>, booleans, integers, strings); every other Python
  value (a float, a list, a dict) is opaque and only handled through the runtime functions
  below.
\<close>

typedecl other

datatype val = VNone | VBool bool | VInt int | VStr string | VOther other

text \<open>Every exception the module can raise is a value of this type.\<close>

datatype error =
    KeyError string
  | TypeError
  | ValueError
  | AttributeError
  | NameError string
  | StopIteration
  | ParserError
  | ExportFailed
  | StreamNotImplemented string

text \<open>A pendulum datetime: an instant (microseconds since the epoch) and a UTC offset.\<close>

record datetime =
  instant :: int
  utcoffset :: int

datatype cmp_op = Lt | Gt | Ge

text \<open>
  The Python runtime and the libraries \<^verbatim>\<open>pendulum\<close>, \<^verbatim>\<open>json\<close> and \<^verbatim>\<open>csv\<close> are not part of
  the module; the functions it calls from them are parameters of the model.
  \<open>utcnow\<close> is indexed by the number of interactions with the outside world made so far,
  so that successive reads of the clock may differ.
\<close>

record runtime =
  parse :: "val \<Rightarrow> error + datetime"
  isoformat :: "datetime \<Rightarrow> string"
  utcnow :: "nat \<Rightarrow> datetime"
  py_int :: "val \<Rightarrow> error + val"
  py_float :: "val \<Rightarrow> error + val"
  json_loads :: "val \<Rightarrow> error + (string \<times> val) list"
  csv_reader :: "string \<Rightarrow> error + string list"
  other_truthy :: "other \<Rightarrow> bool"
  other_cmp :: "cmp_op \<Rightarrow> val \<Rightarrow> val \<Rightarrow> error + bool"

subsection \<open>Truthiness and comparison of Python values\<close>

fun truthy :: "runtime \<Rightarrow> val \<Rightarrow> bool" where
  "truthy rt VNone = False"
| "truthy rt (VBool b) = b"
| "truthy rt (VInt i) = (i \<noteq> 0)"
| "truthy rt (VStr s) = (s \<noteq> [])"
| "truthy rt (VOther x) = other_truthy rt x"

text \<open>Strings compare by code point, the shorter of two strings first when it is a prefix.\<close>

fun str_lt :: "string \<Rightarrow> string \<Rightarrow> bool" where
  "str_lt [] [] = False"
| "str_lt [] (y # ys) = True"
| "str_lt (x # xs) [] = False"
| "str_lt (x # xs) (y # ys) =
     (if x = y then str_lt xs ys else (of_char x :: nat) < of_char y)"

definition str_le :: "string \<Rightarrow> string \<Rightarrow> bool" where
  "str_le a b = (a = b \<or> str_lt a b)"

fun num_of :: "val \<Rightarrow> int option" where
  "num_of (VInt i) = Some i"
| "num_of (VBool b) = Some (if b then 1 else 0)"
| "num_of v = None"

fun is_other :: "val \<Rightarrow> bool" where
  "is_other (VOther x) = True"
| "is_other v = False"

fun str_of :: "val \<Rightarrow> string option" where
  "str_of (VStr s) = Some s"
| "str_of v = None"

text \<open>
  \<^verbatim>\<open>a < b\<close>, \<^verbatim>\<open>a > b\<close> and \<^verbatim>\<open>a >= b\<close>. Two strings compare, and so do two integers or
  booleans; a string or \<^verbatim>\<open>None\<close> against anything else is a \<^verbatim>\<open>TypeError\<close>; a comparison of
  an opaque value with a number or another opaque value is left to the runtime.
\<close>

definition py_cmp :: "runtime \<Rightarrow> cmp_op \<Rightarrow> val \<Rightarrow> val \<Rightarrow> error + bool" where
  "py_cmp rt op a b =
     (case (str_of a, str_of b) of
        (Some s, Some t) \<Rightarrow>
          Inr (case op of Lt \<Rightarrow> str_lt s t | Gt \<Rightarrow> str_lt t s | Ge \<Rightarrow> str_le t s)
      | (None, None) \<Rightarrow>
          if a = VNone \<or> b = VNone then Inl TypeError
          else if is_other a \<or> is_other b then other_cmp rt op a b
          else (case (num_of a, num_of b) of
                  (Some i, Some j) \<Rightarrow> Inr (case op of Lt \<Rightarrow> i < j | Gt \<Rightarrow> i > j | Ge \<Rightarrow> i \<ge> j)
                | _ \<Rightarrow> Inl TypeError)
      | _ \<Rightarrow> Inl TypeError)"

subsection \<open>String helpers\<close>

definition char_lower :: "char \<Rightarrow> char" where
  "char_lower c =
     (if (65::nat) \<le> of_char c \<and> of_char c \<le> (90::nat) then char_of (of_char c + (32::nat)) else c)"

definition lower :: "string \<Rightarrow> string" where
  "lower s = map char_lower s"

text \<open>\<^verbatim>\<open>s.split(sep)\<close> for a one-character separator.\<close>

fun split_on :: "char \<Rightarrow> string \<Rightarrow> string list" where
  "split_on sep [] = [[]]"
| "split_on sep (c # cs) =
     (if c = sep then [] # split_on sep cs
      else (case split_on sep cs of [] \<Rightarrow> [[c]] | p # ps \<Rightarrow> (c # p) # ps))"

definition startswith :: "string \<Rightarrow> string \<Rightarrow> bool" where
  "startswith s p = (take (length p) s = p)"

section \<open>Streams and schemas\<close>

text \<open>\<^verbatim>\<open>schema["type"]\<close> is one type name or a list of them.\<close>

datatype jtype = TypeName string | TypeList "string list"

record field_schema =
  ftype :: "jtype option"
  fformat :: "string option"
  fselected :: bool
  inclusion :: "string option"

text \<open>
  A catalog entry. \<open>properties\<close> lists the items of \<^verbatim>\<open>stream["schema"]["properties"]\<close> in
  iteration order; \<open>selected\<close> is the truth value of \<^verbatim>\<open>stream["schema"].get("selected")\<close>.
\<close>

record stream =
  stream_name :: string
  selected :: bool
  properties :: "(string \<times> field_schema) list"
  replication_key :: "string option"

type_synonym row = "string \<rightharpoonup> val"

definition MAX_EXPORT_DAYS :: int where
  "MAX_EXPORT_DAYS = 30"

definition BASE_ACTIVITY_FIELDS :: "string list" where
  "BASE_ACTIVITY_FIELDS = [''marketoGUID'', ''leadId'', ''activityDate'', ''activityTypeId'']"

definition ACTIVITY_FIELDS :: "string list" where
  "ACTIVITY_FIELDS =
     BASE_ACTIVITY_FIELDS @ [''primaryAttributeValue'', ''primaryAttributeValueId'', ''attributes'']"

definition NO_ASSET_MSG :: string where
  "NO_ASSET_MSG = ''No assets found for the given search criteria.''"

section \<open>Formatting values\<close>

definition format_value :: "runtime \<Rightarrow> val \<Rightarrow> field_schema \<Rightarrow> error + val" where
  "format_value rt v schema =
     (case ftype schema of
        None \<Rightarrow> Inl (KeyError ''type'')
      | Some t \<Rightarrow>
          (let field_type = (case t of TypeList ts \<Rightarrow> ts | TypeName s \<Rightarrow> [s]) in
           if v = VNone \<or> v = VStr [] then Inr VNone
           else if fformat schema = Some ''date-time'' then
             (case parse rt v of Inl e \<Rightarrow> Inl e | Inr d \<Rightarrow> Inr (VStr (isoformat rt d)))
           else if ''integer'' \<in> set field_type then py_int rt v
           else if ''number'' \<in> set field_type then py_float rt v
           else if ''boolean'' \<in> set field_type then
             (case v of
                VBool b \<Rightarrow> Inr v
              | VStr s \<Rightarrow> Inr (VBool (lower s = ''true''))
              | _ \<Rightarrow> Inl AttributeError)
           else Inr v))"

text \<open>\<^verbatim>\<open>row.get(field)\<close>: \<^verbatim>\<open>None\<close> for a missing key.\<close>

definition row_get :: "row \<Rightarrow> string \<Rightarrow> val" where
  "row_get r field = (case r field of None \<Rightarrow> VNone | Some v \<Rightarrow> v)"

text \<open>The loop of \<^verbatim>\<open>format_values\<close> over the schema's properties, \<open>rtn\<close> being the dict built so far.\<close>

fun format_values_loop ::
  "runtime \<Rightarrow> (string \<times> field_schema) list \<Rightarrow> row \<Rightarrow> row \<Rightarrow> error + row" where
  "format_values_loop rt [] r rtn = Inr rtn"
| "format_values_loop rt ((field, schema) # rest) r rtn =
     (if \<not> fselected schema then format_values_loop rt rest r rtn
      else case format_value rt (row_get r field) schema of
             Inl e \<Rightarrow> Inl e
           | Inr v \<Rightarrow> format_values_loop rt rest r (rtn(field \<mapsto> v)))"

definition format_values :: "runtime \<Rightarrow> stream \<Rightarrow> row \<Rightarrow> error + row" where
  "format_values rt s r = format_values_loop rt (properties s) r Map.empty"

section \<open>State, bookmarks and the outside world\<close>

record tap_state =
  bookmarks :: "string \<rightharpoonup> (string \<rightharpoonup> val)"
  currently_syncing :: "string option"

text \<open>
  Modelled from the spec: the bookmark store (\<^verbatim>\<open>singer.bookmarks\<close>) is a library that is not
  part of the module. Section 4.3 of the specification gives its operations: reading a
  missing key gives \<^verbatim>\<open>None\<close> and never raises, writing returns the updated state, writing
  \<^verbatim>\<open>None\<close> keeps the key with a null value.
\<close>

definition get_bookmark :: "tap_state \<Rightarrow> string \<Rightarrow> string \<Rightarrow> val" where
  "get_bookmark st tap_stream_id key =
     (case bookmarks st tap_stream_id of
        None \<Rightarrow> VNone
      | Some b \<Rightarrow> (case b key of None \<Rightarrow> VNone | Some v \<Rightarrow> v))"

definition write_bookmark :: "tap_state \<Rightarrow> string \<Rightarrow> string \<Rightarrow> val \<Rightarrow> tap_state" where
  "write_bookmark st tap_stream_id key v =
     st\<lparr>bookmarks := (bookmarks st)(tap_stream_id \<mapsto>
        (case bookmarks st tap_stream_id of None \<Rightarrow> Map.empty | Some b \<Rightarrow> b)(key \<mapsto> v))\<rparr>"

definition get_currently_syncing :: "tap_state \<Rightarrow> string option" where
  "get_currently_syncing st = currently_syncing st"

definition set_currently_syncing :: "tap_state \<Rightarrow> string option \<Rightarrow> tap_state" where
  "set_currently_syncing st tap_stream_id = st\<lparr>currently_syncing := tap_stream_id\<rparr>"

text \<open>The body of a REST response, with the three keys the module reads.\<close>

record response =
  warnings :: "string list option"
  result :: "row list option"
  nextPageToken :: "val option"

text \<open>
  Modelled from the spec: the API client (\<^verbatim>\<open>tap_marketo.client\<close>) is not part of the module.
  Section 6 of the specification gives its operations; \<open>wait_for_export\<close> is \<open>False\<close> when
  the call fails with \<^verbatim>\<open>ExportFailed\<close>. Each operation is indexed by the number of
  interactions with the outside world made before it, so that a reply may depend on what
  happened earlier.
\<close>

record client =
  create_export :: "nat \<Rightarrow> string \<Rightarrow> string list \<Rightarrow> (string \<times> val) list \<Rightarrow> val"
  wait_for_export :: "nat \<Rightarrow> string \<Rightarrow> val \<Rightarrow> bool"
  stream_export :: "nat \<Rightarrow> string \<Rightarrow> val \<Rightarrow> string list"
  request :: "nat \<Rightarrow> string \<Rightarrow> string \<Rightarrow> string \<Rightarrow> (string \<times> val) list \<Rightarrow> response"
  use_corona :: bool

text \<open>What the module sends out, in order: singer messages, log lines and client calls.\<close>

datatype event =
    WriteRecord string row
  | WriteState tap_state
  | LogInfo string
  | LogWarning string
  | RecordCounter string nat
  | CreateExport string "string list" "(string \<times> val) list"
  | WaitForExport string val
  | StreamExport string val
  | Request string string string "(string \<times> val) list"

text \<open>
  The bookmark operations update the state dict they are given and return it, so every
  variable named \<^verbatim>\<open>state\<close> in the module is the same dict: the field \<open>state\<close> of the
  world. The module relies on this: it drops the state that \<^verbatim>\<open>update_activity_state\<close>
  returns (lines 118, 161 and 173) and reads the bookmarks written there from its own
  \<^verbatim>\<open>state\<close> afterwards (lines 139 and 172). A function that raises returns the error
  together with the world it has reached. \<open>tick\<close> counts the interactions with the outside
  world (client calls and clock reads) made so far.
\<close>

record world =
  state :: tap_state
  out :: "event list"
  tick :: nat

definition emit :: "event \<Rightarrow> world \<Rightarrow> world" where
  "emit e w = w\<lparr>out := out w @ [e]\<rparr>"

definition write_state :: "world \<Rightarrow> world" where
  "write_state w = emit (WriteState (state w)) w"

definition write_record :: "string \<Rightarrow> row \<Rightarrow> world \<Rightarrow> world" where
  "write_record name record w = emit (WriteRecord name record) w"

definition called :: "event \<Rightarrow> world \<Rightarrow> world" where
  "called e w = (emit e w)\<lparr>tick := Suc (tick w)\<rparr>"

definition set_bookmark :: "string \<Rightarrow> string \<Rightarrow> val \<Rightarrow> world \<Rightarrow> world" where
  "set_bookmark tap_stream_id key v w = w\<lparr>state := write_bookmark (state w) tap_stream_id key v\<rparr>"

section \<open>Activities: bulk exports\<close>

definition parse_csv_line :: "runtime \<Rightarrow> string \<Rightarrow> error + string list" where
  "parse_csv_line rt line = csv_reader rt line"

text \<open>\<^verbatim>\<open>{field: row[field] for field in BASE_ACTIVITY_FIELDS}\<close>\<close>

fun base_fields :: "string list \<Rightarrow> row \<Rightarrow> row \<Rightarrow> error + row" where
  "base_fields [] r rtn = Inr rtn"
| "base_fields (field # rest) r rtn =
     (case r field of
        None \<Rightarrow> Inl (KeyError field)
      | Some v \<Rightarrow> base_fields rest r (rtn(field \<mapsto> v)))"

fun primary_attribute :: "(string \<times> field_schema) list \<Rightarrow> row \<Rightarrow> row \<Rightarrow> error + row" where
  "primary_attribute [] r rtn = Inr rtn"
| "primary_attribute ((field, field_schema) # rest) r rtn =
     (case inclusion field_schema of
        None \<Rightarrow> Inl (KeyError ''inclusion'')
      | Some i \<Rightarrow>
          if i = ''automatic'' \<and> field \<notin> set ACTIVITY_FIELDS then
            (case r ''primaryAttributeValue'' of
               None \<Rightarrow> Inl (KeyError ''primaryAttributeValue'')
             | Some v \<Rightarrow> primary_attribute rest r (rtn(field \<mapsto> v)))
          else primary_attribute rest r rtn)"

text \<open>\<^verbatim>\<open>key.lower().replace(" ", "_")\<close>\<close>

definition attr_key :: "string \<Rightarrow> string" where
  "attr_key key = map (\<lambda>c. if c = CHR '' '' then CHR ''_'' else c) (lower key)"

fun flatten_attrs :: "(string \<times> val) list \<Rightarrow> row \<Rightarrow> row" where
  "flatten_attrs [] rtn = rtn"
| "flatten_attrs ((key, v) # rest) rtn = flatten_attrs rest (rtn(attr_key key \<mapsto> v))"

definition flatten_activity ::
  "runtime \<Rightarrow> row \<Rightarrow> (string \<times> field_schema) list \<Rightarrow> error + row" where
  "flatten_activity rt r props =
     (case base_fields BASE_ACTIVITY_FIELDS r Map.empty of
        Inl e \<Rightarrow> Inl e
      | Inr rtn \<Rightarrow>
          (case primary_attribute props r rtn of
             Inl e \<Rightarrow> Inl e
           | Inr rtn' \<Rightarrow>
               (case r ''attributes'' of
                  None \<Rightarrow> Inr rtn'
                | Some a \<Rightarrow>
                    (case json_loads rt a of
                       Inl e \<Rightarrow> Inl e
                     | Inr attrs \<Rightarrow> Inr (flatten_attrs attrs rtn')))))"

definition update_activity_state ::
  "runtime \<Rightarrow> stream \<Rightarrow> val \<Rightarrow> val \<Rightarrow> val \<Rightarrow> world \<Rightarrow> (error + unit) \<times> world" where
  "update_activity_state rt s bookmark export_id export_end w =
     (let w1 = set_bookmark (stream_name s) ''export_id'' export_id w;
          w2 = set_bookmark (stream_name s) ''export_end'' export_end w1
      in if truthy rt bookmark then
           (case replication_key s of
              None \<Rightarrow> (Inl (KeyError ''replication_key''), w2)
            | Some rk \<Rightarrow> (Inr (), write_state (set_bookmark (stream_name s) rk bookmark w2)))
         else (Inr (), write_state w2))"

text \<open>
  When no export is bookmarked the function reads the name \<^verbatim>\<open>start_pen\<close> (line 107), which
  is neither a local, a global nor a builtin: Python raises \<^verbatim>\<open>NameError\<close> there, and the
  rest of that branch (the window, \<^verbatim>\<open>create_export\<close>, storing the id) is never reached.
  Before it, unpacking the split stream name raises \<^verbatim>\<open>ValueError\<close> unless it has exactly
  two parts, and \<^verbatim>\<open>stream["replication_key"]\<close> raises \<^verbatim>\<open>KeyError\<close> if the key is missing.
\<close>

definition get_or_create_export ::
  "runtime \<Rightarrow> client \<Rightarrow> stream \<Rightarrow> world \<Rightarrow> (error + val) \<times> world" where
  "get_or_create_export rt c s w =
     (let export_id = get_bookmark (state w) (stream_name s) ''export_id'' in
      if \<not> truthy rt export_id then
        (if length (split_on CHR ''_'' (stream_name s)) \<noteq> 2 then (Inl ValueError, w)
         else case replication_key s of
                None \<Rightarrow> (Inl (KeyError ''replication_key''), w)
              | Some rk \<Rightarrow> (Inl (NameError ''start_pen''), w))
      else (Inr export_id, w))"

text \<open>\<^verbatim>\<open>dict(zip(headers, parsed_line))\<close>: a later duplicate of a header overwrites an earlier one.\<close>

fun dict_zip :: "string list \<Rightarrow> string list \<Rightarrow> row \<Rightarrow> row" where
  "dict_zip (h # hs) (x # xs) d = dict_zip hs xs (d(h \<mapsto> VStr x))"
| "dict_zip hs xs d = d"

definition handle_activity_line ::
  "runtime \<Rightarrow> stream \<Rightarrow> string list \<Rightarrow> string \<Rightarrow> world \<Rightarrow> (error + nat) \<times> world" where
  "handle_activity_line rt s headers line w =
     (case parse_csv_line rt line of
        Inl e \<Rightarrow> (Inl e, w)
      | Inr parsed_line \<Rightarrow>
     (case flatten_activity rt (dict_zip headers parsed_line Map.empty) (properties s) of
        Inl e \<Rightarrow> (Inl e, w)
      | Inr r \<Rightarrow>
     (case format_values rt s r of
        Inl e \<Rightarrow> (Inl e, w)
      | Inr record \<Rightarrow>
     (case replication_key s of
        None \<Rightarrow> (Inl (KeyError ''replication_key''), w)
      | Some rk \<Rightarrow>
     (let start_date = get_bookmark (state w) (stream_name s) rk in
      case record rk of
        None \<Rightarrow> (Inl (KeyError rk), w)
      | Some v \<Rightarrow>
     (case py_cmp rt Lt v start_date of
        Inl e \<Rightarrow> (Inl e, w)
      | Inr True \<Rightarrow> (Inr 0, w)
      | Inr False \<Rightarrow> (Inr 1, write_record (stream_name s) record w)))))))"

text \<open>\<^verbatim>\<open>for line in lines: record_count += handle_activity_line(...)\<close>\<close>

fun drain_lines ::
  "runtime \<Rightarrow> stream \<Rightarrow> string list \<Rightarrow> string list \<Rightarrow> nat \<Rightarrow> world \<Rightarrow> (error + nat) \<times> world" where
  "drain_lines rt s headers [] record_count w = (Inr record_count, w)"
| "drain_lines rt s headers (line # lines) record_count w =
     (case handle_activity_line rt s headers line w of
        (Inl e, w') \<Rightarrow> (Inl e, w')
      | (Inr n, w') \<Rightarrow> drain_lines rt s headers lines (record_count + n) w')"

text \<open>
  One pass through the body of the \<^verbatim>\<open>while\<close> loop of \<^verbatim>\<open>sync_activities\<close>: the result is the
  next \<^verbatim>\<open>start_pen\<close> and the record count.
\<close>

definition activities_body ::
  "runtime \<Rightarrow> client \<Rightarrow> stream \<Rightarrow> nat \<Rightarrow> world \<Rightarrow> (error + datetime \<times> nat) \<times> world" where
  "activities_body rt c s record_count w =
     (case get_or_create_export rt c s w of
        (Inl e, w1) \<Rightarrow> (Inl e, w1)
      | (Inr export_id, w1) \<Rightarrow>
     (let ok = wait_for_export c (tick w1) ''activities'' export_id;
          w2 = called (WaitForExport ''activities'' export_id) w1
      in if \<not> ok then
           (case update_activity_state rt s VNone VNone VNone w2 of
              (Inl e, w3) \<Rightarrow> (Inl e, w3)
            | (Inr u, w3) \<Rightarrow> (Inl ExportFailed, w3))
         else
     (let lines = stream_export c (tick w2) ''activities'' export_id;
          w3 = called (StreamExport ''activities'' export_id) w2
      in case lines of
           [] \<Rightarrow> (Inl StopIteration, w3)
         | first # rest \<Rightarrow>
     (case parse_csv_line rt first of
        Inl e \<Rightarrow> (Inl e, w3)
      | Inr headers \<Rightarrow>
     (case drain_lines rt s headers rest record_count w3 of
        (Inl e, w4) \<Rightarrow> (Inl e, w4)
      | (Inr record_count', w4) \<Rightarrow>
     (let start_date = get_bookmark (state w4) (stream_name s) ''export_end'' in
      case update_activity_state rt s start_date VNone VNone w4 of
        (Inl e, w5) \<Rightarrow> (Inl e, w5)
      | (Inr u, w5) \<Rightarrow>
     (case parse rt start_date of
        Inl e \<Rightarrow> (Inl e, w5)
      | Inr start_pen \<Rightarrow> (Inr (start_pen, record_count'), w5))))))))"

text \<open>\<^verbatim>\<open>while start_pen < job_started\<close>; the result \<open>None\<close> stands for a loop that never ends.\<close>

partial_function (option) activities_loop ::
  "runtime \<Rightarrow> client \<Rightarrow> stream \<Rightarrow> datetime \<Rightarrow> datetime \<Rightarrow> nat \<Rightarrow> world
     \<Rightarrow> ((error + nat) \<times> world) option" where
  "activities_loop rt c s job_started start_pen record_count w =
     (if instant start_pen < instant job_started then
        (case activities_body rt c s record_count w of
           (Inl e, w') \<Rightarrow> Some (Inl e, w')
         | (Inr (start_pen', record_count'), w') \<Rightarrow>
             activities_loop rt c s job_started start_pen' record_count' w')
      else Some (Inr record_count, w))"

definition sync_activities ::
  "runtime \<Rightarrow> client \<Rightarrow> stream \<Rightarrow> world \<Rightarrow> ((error + nat) \<times> world) option" where
  "sync_activities rt c s w =
     (case replication_key s of
        None \<Rightarrow> Some (Inl (KeyError ''replication_key''), w)
      | Some rk \<Rightarrow>
     (let start_date = get_bookmark (state w) (stream_name s) rk in
      case parse rt start_date of
        Inl e \<Rightarrow> Some (Inl e, w)
      | Inr start_pen \<Rightarrow>
          activities_loop rt c s (utcnow rt (tick w)) start_pen 0 (w\<lparr>tick := Suc (tick w)\<rparr>)))"

section \<open>Programs: offset pagination\<close>

text \<open>What one pass through the body of a \<^verbatim>\<open>while True\<close> loop does next.\<close>

datatype ('a, 'b) step = Break 'a | Continue 'b

definition programs_params :: "int \<Rightarrow> val \<Rightarrow> string \<Rightarrow> (string \<times> val) list" where
  "programs_params offset start_date end_date =
     [(''maxReturn'', VInt 200), (''offset'', VInt offset),
      (''earliestUpdatedAt'', start_date), (''latestUpdatedAt'', VStr end_date)]"

text \<open>\<^verbatim>\<open>for row in data["result"]\<close> of \<^verbatim>\<open>sync_programs\<close>\<close>

fun programs_rows ::
  "runtime \<Rightarrow> stream \<Rightarrow> val \<Rightarrow> row list \<Rightarrow> nat \<Rightarrow> world \<Rightarrow> (error + nat) \<times> world" where
  "programs_rows rt s start_date [] record_count w = (Inr record_count, w)"
| "programs_rows rt s start_date (r # rows) record_count w =
     (case format_values rt s r of
        Inl e \<Rightarrow> (Inl e, w)
      | Inr record \<Rightarrow>
     (case record ''updatedAt'' of
        None \<Rightarrow> (Inl (KeyError ''updatedAt''), w)
      | Some v \<Rightarrow>
     (case py_cmp rt Ge v start_date of
        Inl e \<Rightarrow> (Inl e, w)
      | Inr True \<Rightarrow>
          programs_rows rt s start_date rows (record_count + 1) (write_record ''programs'' record w)
      | Inr False \<Rightarrow> programs_rows rt s start_date rows record_count w)))"

definition programs_body ::
  "runtime \<Rightarrow> client \<Rightarrow> stream \<Rightarrow> val \<Rightarrow> string \<Rightarrow> int \<Rightarrow> nat \<Rightarrow> world
     \<Rightarrow> (error + (nat, int \<times> nat) step) \<times> world" where
  "programs_body rt c s start_date end_date offset record_count w =
     (let params = programs_params offset start_date end_date;
          data = request c (tick w) ''GET'' ''rest/asset/v1/programs.json'' ''programs'' params;
          w1 = called (Request ''GET'' ''rest/asset/v1/programs.json'' ''programs'' params) w
      in case warnings data of
           None \<Rightarrow> (Inl (KeyError ''warnings''), w1)
         | Some ws \<Rightarrow>
             if NO_ASSET_MSG \<in> set ws then (Inr (Break record_count), w1)
             else
               (case result data of
                  None \<Rightarrow> (Inl (KeyError ''result''), w1)
                | Some rows \<Rightarrow>
                    (case programs_rows rt s start_date rows record_count w1 of
                       (Inl e, w2) \<Rightarrow> (Inl e, w2)
                     | (Inr record_count', w2) \<Rightarrow>
                         (Inr (Continue (offset + 200, record_count')), w2))))"

partial_function (option) programs_loop ::
  "runtime \<Rightarrow> client \<Rightarrow> stream \<Rightarrow> val \<Rightarrow> string \<Rightarrow> int \<Rightarrow> nat \<Rightarrow> world
     \<Rightarrow> ((error + nat) \<times> world) option" where
  "programs_loop rt c s start_date end_date offset record_count w =
     (case programs_body rt c s start_date end_date offset record_count w of
        (Inl e, w') \<Rightarrow> Some (Inl e, w')
      | (Inr (Break n), w') \<Rightarrow> Some (Inr n, w')
      | (Inr (Continue (offset', record_count')), w') \<Rightarrow>
          programs_loop rt c s start_date end_date offset' record_count' w')"

definition sync_programs ::
  "runtime \<Rightarrow> client \<Rightarrow> stream \<Rightarrow> world \<Rightarrow> ((error + nat) \<times> world) option" where
  "sync_programs rt c s w =
     (let start_date = get_bookmark (state w) ''programs'' ''updatedAt'';
          end_date = isoformat rt (utcnow rt (tick w))
      in case programs_loop rt c s start_date end_date 0 0 (w\<lparr>tick := Suc (tick w)\<rparr>) of
           None \<Rightarrow> None
         | Some (Inl e, w') \<Rightarrow> Some (Inl e, w')
         | Some (Inr record_count, w') \<Rightarrow>
             Some (Inr record_count,
                   write_state (set_bookmark ''programs'' ''updatedAt'' (VStr end_date) w')))"

section \<open>Campaigns and lists: token pagination\<close>

definition paginated_params :: "val option \<Rightarrow> (string \<times> val) list" where
  "paginated_params token =
     (''batchSize'', VInt 300) # (case token of None \<Rightarrow> [] | Some t \<Rightarrow> [(''nextPageToken'', t)])"

definition paginated_endpoint :: "stream \<Rightarrow> string" where
  "paginated_endpoint s = ''rest/v1/'' @ stream_name s @ ''.json''"

text \<open>
  \<^verbatim>\<open>for row in data["result"]\<close> of \<^verbatim>\<open>sync_paginated\<close>; the result is the record count and
  \<^verbatim>\<open>max_bookmark\<close>.
\<close>

fun paginated_rows ::
  "runtime \<Rightarrow> stream \<Rightarrow> string \<Rightarrow> val \<Rightarrow> row list \<Rightarrow> nat \<Rightarrow> val \<Rightarrow> world
     \<Rightarrow> (error + nat \<times> val) \<times> world" where
  "paginated_rows rt s rk start_date [] record_count max_bookmark w =
     (Inr (record_count, max_bookmark), w)"
| "paginated_rows rt s rk start_date (r # rows) record_count max_bookmark w =
     (case format_values rt s r of
        Inl e \<Rightarrow> (Inl e, w)
      | Inr record \<Rightarrow>
     (case record rk of
        None \<Rightarrow> (Inl (KeyError rk), w)
      | Some v \<Rightarrow>
     (case py_cmp rt Ge v start_date of
        Inl e \<Rightarrow> (Inl e, w)
      | Inr False \<Rightarrow> paginated_rows rt s rk start_date rows record_count max_bookmark w
      | Inr True \<Rightarrow>
     (let w1 = write_record (stream_name s) record w;
          bookmark = get_bookmark (state w1) (stream_name s) rk
      in case py_cmp rt Gt bookmark max_bookmark of
           Inl e \<Rightarrow> (Inl e, w1)
         | Inr True \<Rightarrow> paginated_rows rt s rk start_date rows (record_count + 1) bookmark w1
         | Inr False \<Rightarrow>
             paginated_rows rt s rk start_date rows (record_count + 1) max_bookmark w1))))"

definition paginated_body ::
  "runtime \<Rightarrow> client \<Rightarrow> stream \<Rightarrow> string \<Rightarrow> val \<Rightarrow> val option \<Rightarrow> nat \<Rightarrow> val \<Rightarrow> world
     \<Rightarrow> (error + (nat \<times> val, val option \<times> nat \<times> val) step) \<times> world" where
  "paginated_body rt c s rk start_date token record_count max_bookmark w =
     (let params = paginated_params token;
          data = request c (tick w) ''GET'' (paginated_endpoint s) (stream_name s) params;
          w1 = called (Request ''GET'' (paginated_endpoint s) (stream_name s) params) w
      in case result data of
           None \<Rightarrow> (Inl (KeyError ''result''), w1)
         | Some rows \<Rightarrow>
             (case paginated_rows rt s rk start_date rows record_count max_bookmark w1 of
                (Inl e, w2) \<Rightarrow> (Inl e, w2)
              | (Inr (record_count', max_bookmark'), w2) \<Rightarrow>
                  (case nextPageToken data of
                     None \<Rightarrow> (Inr (Break (record_count', max_bookmark')), w2)
                   | Some t \<Rightarrow>
                       (Inr (Continue (Some t, record_count', max_bookmark')),
                        write_state (set_bookmark (stream_name s) ''next_page_token'' t w2)))))"

partial_function (option) paginated_loop ::
  "runtime \<Rightarrow> client \<Rightarrow> stream \<Rightarrow> string \<Rightarrow> val \<Rightarrow> val option \<Rightarrow> nat \<Rightarrow> val \<Rightarrow> world
     \<Rightarrow> ((error + nat \<times> val) \<times> world) option" where
  "paginated_loop rt c s rk start_date token record_count max_bookmark w =
     (case paginated_body rt c s rk start_date token record_count max_bookmark w of
        (Inl e, w') \<Rightarrow> Some (Inl e, w')
      | (Inr (Break r), w') \<Rightarrow> Some (Inr r, w')
      | (Inr (Continue (token', record_count', max_bookmark')), w') \<Rightarrow>
          paginated_loop rt c s rk start_date token' record_count' max_bookmark' w')"

definition sync_paginated ::
  "runtime \<Rightarrow> client \<Rightarrow> stream \<Rightarrow> world \<Rightarrow> ((error + nat) \<times> world) option" where
  "sync_paginated rt c s w =
     (case replication_key s of
        None \<Rightarrow> Some (Inl (KeyError ''replication_key''), w)
      | Some rk \<Rightarrow>
     (let start_date = get_bookmark (state w) (stream_name s) rk;
          next_page_token = get_bookmark (state w) (stream_name s) ''next_page_token'';
          token = (if truthy rt next_page_token then Some next_page_token else None)
      in case paginated_loop rt c s rk start_date token 0 start_date w of
           None \<Rightarrow> None
         | Some (Inl e, w') \<Rightarrow> Some (Inl e, w')
         | Some (Inr (record_count, max_bookmark), w') \<Rightarrow>
             Some (Inr record_count,
                   write_state
                     (set_bookmark (stream_name s) rk max_bookmark
                        (set_bookmark (stream_name s) ''next_page_token'' VNone w')))))"

section \<open>Activity types: one request\<close>

fun activity_types_rows ::
  "runtime \<Rightarrow> stream \<Rightarrow> row list \<Rightarrow> nat \<Rightarrow> world \<Rightarrow> (error + nat) \<times> world" where
  "activity_types_rows rt s [] record_count w = (Inr record_count, w)"
| "activity_types_rows rt s (r # rows) record_count w =
     (case format_values rt s r of
        Inl e \<Rightarrow> (Inl e, w)
      | Inr record \<Rightarrow>
          activity_types_rows rt s rows (record_count + 1) (write_record ''activity_types'' record w))"

definition sync_activity_types ::
  "runtime \<Rightarrow> client \<Rightarrow> stream \<Rightarrow> world \<Rightarrow> ((error + nat) \<times> world) option" where
  "sync_activity_types rt c s w =
     (let data = request c (tick w) ''GET'' ''rest/v1/activities/types.json'' ''activity_types'' [];
          w1 = called (Request ''GET'' ''rest/v1/activities/types.json'' ''activity_types'' []) w
      in case result data of
           None \<Rightarrow> Some (Inl (KeyError ''result''), w1)
         | Some rows \<Rightarrow> Some (activity_types_rows rt s rows 0 w1))"

section \<open>The orchestrator\<close>

record catalog =
  streams :: "stream list"

text \<open>The \<^verbatim>\<open>if\<close> / \<^verbatim>\<open>elif\<close> chain of \<^verbatim>\<open>sync\<close> that chooses the strategy by stream name.\<close>

definition sync_stream ::
  "runtime \<Rightarrow> client \<Rightarrow> stream \<Rightarrow> world \<Rightarrow> ((error + nat) \<times> world) option" where
  "sync_stream rt c s w =
     (if stream_name s = ''activity_types'' then sync_activity_types rt c s w
      else if startswith (stream_name s) ''activities_'' then sync_activities rt c s w
      else if stream_name s \<in> set [''campaigns'', ''lists''] then sync_paginated rt c s w
      else if stream_name s = ''programs'' then sync_programs rt c s w
      else Some (Inl (StreamNotImplemented (stream_name s)), w))"

text \<open>\<^verbatim>\<open>starting_stream and stream["stream"] != starting_stream\<close>\<close>

definition already_synced :: "string option \<Rightarrow> stream \<Rightarrow> bool" where
  "already_synced starting_stream s =
     (case starting_stream of None \<Rightarrow> False | Some n \<Rightarrow> n \<noteq> [] \<and> stream_name s \<noteq> n)"

text \<open>
  What \<^verbatim>\<open>sync\<close> does before it dispatches a stream (log, set the marker, emit the state)
  and after the stream's strategy has returned (metric, clear the marker, emit the state, log).
\<close>

definition begin_stream :: "stream \<Rightarrow> world \<Rightarrow> world" where
  "begin_stream s w =
     (let w1 = emit (LogInfo (stream_name s @ '': starting sync'')) w
      in write_state (w1\<lparr>state := set_currently_syncing (state w1) (Some (stream_name s))\<rparr>))"

definition end_stream :: "stream \<Rightarrow> nat \<Rightarrow> world \<Rightarrow> world" where
  "end_stream s record_count w =
     (let w1 = emit (RecordCounter (stream_name s) record_count) w;
          w2 = write_state (w1\<lparr>state := set_currently_syncing (state w1) None\<rparr>)
      in emit (LogInfo (stream_name s @ '': finished sync'')) w2)"

text \<open>\<^verbatim>\<open>for stream in catalog["streams"]\<close>, with the local variable \<^verbatim>\<open>starting_stream\<close>.\<close>

fun sync_streams ::
  "runtime \<Rightarrow> client \<Rightarrow> string option \<Rightarrow> stream list \<Rightarrow> world \<Rightarrow> ((error + unit) \<times> world) option" where
  "sync_streams rt c starting_stream [] w = Some (Inr (), w)"
| "sync_streams rt c starting_stream (s # rest) w =
     (if \<not> selected s then
        sync_streams rt c starting_stream rest (emit (LogInfo (stream_name s @ '': not selected'')) w)
      else if already_synced starting_stream s then
        sync_streams rt c starting_stream rest (emit (LogInfo (stream_name s @ '': already synced'')) w)
      else
        (case sync_stream rt c s (begin_stream s w) of
           None \<Rightarrow> None
         | Some (Inl e, w') \<Rightarrow> Some (Inl e, w')
         | Some (Inr record_count, w') \<Rightarrow>
             sync_streams rt c None rest (end_stream s record_count w')))"

definition NO_CORONA_WARNING :: string where
  "NO_CORONA_WARNING =
     ''Your account does not have Corona support enabled. Without Corona, each sync of '' @
     ''the Leads table requires a full export which can lead to lower data freshness. '' @
     ''Please contact <contact email> at Marketo to request Corona support be added to '' @
     ''your account.''"

text \<open>The log line at the start of \<^verbatim>\<open>sync\<close> and the lines after its loop.\<close>

definition log_start :: "string option \<Rightarrow> world \<Rightarrow> world" where
  "log_start starting_stream w =
     (case starting_stream of
        None \<Rightarrow> emit (LogInfo ''Starting sync'') w
      | Some n \<Rightarrow>
          if n \<noteq> [] then emit (LogInfo (''Resuming sync from '' @ n)) w
          else emit (LogInfo ''Starting sync'') w)"

definition finish_sync ::
  "client \<Rightarrow> ((error + unit) \<times> world) option \<Rightarrow> ((error + unit) \<times> world) option" where
  "finish_sync c r =
     (case r of
        None \<Rightarrow> None
      | Some (Inl e, w1) \<Rightarrow> Some (Inl e, w1)
      | Some (Inr u, w1) \<Rightarrow>
          (let w2 = emit (LogInfo ''Finished sync'') w1
           in if \<not> use_corona c then Some (Inr (), emit (LogWarning NO_CORONA_WARNING) w2)
              else Some (Inr (), w2)))"

definition sync :: "runtime \<Rightarrow> client \<Rightarrow> catalog \<Rightarrow> world \<Rightarrow> ((error + unit) \<times> world) option" where
  "sync rt c cat w =
     (let starting_stream = get_currently_syncing (state w)
      in finish_sync c
           (sync_streams rt c starting_stream (streams cat) (log_start starting_stream w)))"

section \<open>Example inputs\<close>

text \<open>
  A small runtime for the examples: \<open>parse\<close> knows the timestamps of the table below,
  \<open>isoformat\<close> renders them back in UTC, and the clock stands at 2016-11-06T00:00:00 UTC.
\<close>

definition ex_times :: "(string \<times> int) list" where
  "ex_times =
     [(''2016-09-01T23:59:59+00:00'', 1472774399000000),
      (''2016-09-02T00:00:00+00:00'', 1472774400000000),
      (''2016-10-01T00:00:00+00:00'', 1475280000000000),
      (''2016-11-06T00:00:00+00:00'', 1478390400000000),
      (''2030-01-01T00:00:00+00:00'', 1893456000000000)]"

definition ex_raw_times :: "(string \<times> int) list" where
  "ex_raw_times =
     [(''2016-09-01T23:59:59Z'', 1472774399000000),
      (''2016-09-02T00:00:00Z'', 1472774400000000),
      (''2016-10-01T00:00:00Z'', 1475280000000000)]"

definition ex_rt :: runtime where
  "ex_rt =
     \<lparr>parse = (\<lambda>v. case v of
                 VStr s \<Rightarrow>
                   (case map_of (ex_times @ ex_raw_times) s of
                      Some i \<Rightarrow> Inr \<lparr>instant = i, utcoffset = 0\<rparr>
                    | None \<Rightarrow> Inl ParserError)
               | _ \<Rightarrow> Inl ParserError),
      isoformat = (\<lambda>d. case map_of (map (\<lambda>(s, i). (i, s)) ex_times) (instant d) of
                     Some s \<Rightarrow> s
                   | None \<Rightarrow> []),
      utcnow = (\<lambda>n. \<lparr>instant = 1478390400000000, utcoffset = 0\<rparr>),
      py_int = (\<lambda>v. case v of
                  VInt i \<Rightarrow> Inr v
                | VBool b \<Rightarrow> Inr (VInt (if b then 1 else 0))
                | _ \<Rightarrow> Inl ValueError),
      py_float = (\<lambda>v. Inl ValueError),
      json_loads = (\<lambda>v. Inl ValueError),
      csv_reader = (\<lambda>line. if line = [] then Inl StopIteration else Inr (split_on CHR '','' line)),
      other_truthy = (\<lambda>x. True),
      other_cmp = (\<lambda>op a b. Inl TypeError)\<rparr>"

definition ex_string_field :: "bool \<Rightarrow> field_schema" where
  "ex_string_field sel =
     \<lparr>ftype = Some (TypeList [''null'', ''string'']), fformat = None, fselected = sel,
      inclusion = Some ''available''\<rparr>"

definition ex_date_field :: field_schema where
  "ex_date_field =
     \<lparr>ftype = Some (TypeList [''null'', ''string'']), fformat = Some ''date-time'', fselected = True,
      inclusion = Some ''automatic''\<rparr>"

definition ex_campaigns :: stream where
  "ex_campaigns =
     \<lparr>stream_name = ''campaigns'', selected = True,
      properties = [(''id'', \<lparr>ftype = Some (TypeName ''integer''), fformat = None,
                             fselected = True, inclusion = Some ''automatic''\<rparr>),
                    (''name'', ex_string_field True),
                    (''description'', ex_string_field False),
                    (''updatedAt'', ex_date_field)],
      replication_key = Some ''updatedAt''\<rparr>"

definition ex_campaign_row :: row where
  "ex_campaign_row =
     [''id'' \<mapsto> VInt 7, ''description'' \<mapsto> VStr ''hidden'',
      ''updatedAt'' \<mapsto> VStr ''2016-10-01T00:00:00Z'']"

definition ex_campaign_record :: row where
  "ex_campaign_record =
     [''id'' \<mapsto> VInt 7, ''name'' \<mapsto> VNone,
      ''updatedAt'' \<mapsto> VStr ''2016-10-01T00:00:00+00:00'']"

definition ex_activities :: stream where
  "ex_activities =
     \<lparr>stream_name = ''activities_1'', selected = True,
      properties = [(''marketoGUID'', ex_string_field True),
                    (''leadId'', ex_string_field True),
                    (''activityDate'', ex_date_field),
                    (''activityTypeId'', ex_string_field True),
                    (''webpage'', (ex_string_field True)\<lparr>inclusion := Some ''automatic''\<rparr>)],
      replication_key = Some ''activityDate''\<rparr>"

definition ex_client :: client where
  "ex_client =
     \<lparr>create_export = (\<lambda>n kind fields query. VStr ''export-1''),
      wait_for_export = (\<lambda>n kind export_id. export_id \<noteq> VStr ''failing-export''),
      stream_export = (\<lambda>n kind export_id.
                         [''marketoGUID,leadId,activityDate,activityTypeId,primaryAttributeValue'',
                          ''g1,7,2016-10-01T00:00:00Z,1,home'',
                          ''g0,7,2016-09-01T23:59:59Z,1,home'']),
      request = (\<lambda>n method endpoint endpoint_name params.
                   if endpoint_name = ''programs'' then
                     (if map_of params ''offset'' = Some (VInt 0) then
                        \<lparr>warnings = Some [], result = Some [ex_campaign_row], nextPageToken = None\<rparr>
                      else
                        \<lparr>warnings = Some [NO_ASSET_MSG], result = None, nextPageToken = None\<rparr>)
                   else if endpoint_name = ''campaigns'' then
                     \<lparr>warnings = None, result = Some [ex_campaign_row], nextPageToken = None\<rparr>
                   else \<lparr>warnings = None, result = Some [], nextPageToken = None\<rparr>),
      use_corona = True\<rparr>"

definition ex_world :: "(string \<times> (string \<times> val) list) list \<Rightarrow> world" where
  "ex_world bs =
     \<lparr>state = \<lparr>bookmarks = map_of (map (\<lambda>(n, b). (n, map_of b)) bs), currently_syncing = None\<rparr>,
      out = [], tick = 0\<rparr>"

definition ex_backlog :: world where
  "ex_backlog = ex_world [(''activities_1'', [(''activityDate'', VStr ''2016-09-02T00:00:00+00:00'')])]"


definition ex_leads :: stream where
  "ex_leads = ex_campaigns\<lparr>stream_name := ''leads''\<rparr>"

fun log_lines :: "event list \<Rightarrow> string list" where
  "log_lines [] = []"
| "log_lines (LogInfo m # es) = m # log_lines es"
| "log_lines (e # es) = log_lines es"

definition ex_activity_types :: stream where
  "ex_activity_types = ex_campaigns\<lparr>stream_name := ''activity_types'', replication_key := None\<rparr>"

definition ex_lists :: stream where
  "ex_lists = ex_campaigns\<lparr>stream_name := ''lists''\<rparr>"

definition ex_resume :: world where
  "ex_resume =
     (ex_world [(''campaigns'', [(''updatedAt'', VStr ''2016-09-02T00:00:00+00:00'')]),
                (''lists'', [(''updatedAt'', VStr ''2016-09-02T00:00:00+00:00'')])])
       \<lparr>state := \<lparr>bookmarks = bookmarks (state (ex_world
            [(''campaigns'', [(''updatedAt'', VStr ''2016-09-02T00:00:00+00:00'')]),
             (''lists'', [(''updatedAt'', VStr ''2016-09-02T00:00:00+00:00'')])])),
          currently_syncing = Some ''campaigns''\<rparr>\<rparr>"

definition ex_paged :: world where
  "ex_paged = ex_world [(''campaigns'', [(''updatedAt'', VStr ''2016-09-02T00:00:00+00:00'')])]"

definition ex_programs :: stream where
  "ex_programs = ex_campaigns\<lparr>stream_name := ''programs''\<rparr>"

definition ex_programs_started :: world where
  "ex_programs_started =
     ex_world [(''programs'', [(''updatedAt'', VStr ''2016-09-02T00:00:00+00:00'')])]"

definition ex_future :: world where
  "ex_future = ex_world [(''programs'', [(''updatedAt'', VStr ''2030-01-01T00:00:00+00:00'')])]"

definition ex_resumed_export :: world where
  "ex_resumed_export = ex_world [(''activities_1'',
      [(''activityDate'', VStr ''2016-09-02T00:00:00+00:00''),
       (''export_id'', VStr ''export-7''),
       (''export_end'', VStr ''2016-11-06T00:00:00+00:00'')])]"

definition ex_headers :: "string list" where
  "ex_headers = [''marketoGUID'', ''leadId'', ''activityDate'', ''activityTypeId'', ''primaryAttributeValue'']"

definition ex_activity_record :: row where
  "ex_activity_record =
     [''marketoGUID'' \<mapsto> VStr ''g1'', ''leadId'' \<mapsto> VStr ''7'',
      ''activityDate'' \<mapsto> VStr ''2016-10-01T00:00:00+00:00'',
      ''activityTypeId'' \<mapsto> VStr ''1'', ''webpage'' \<mapsto> VStr ''home'']"

definition ex_early_record :: row where
  "ex_early_record =
     [''marketoGUID'' \<mapsto> VStr ''g0'', ''leadId'' \<mapsto> VStr ''7'',
      ''activityDate'' \<mapsto> VStr ''2016-09-01T23:59:59+00:00'',
      ''activityTypeId'' \<mapsto> VStr ''1'', ''webpage'' \<mapsto> VStr ''home'']"

definition ex_paged_end :: world where
  "ex_paged_end =
     write_state
       (set_bookmark ''campaigns'' ''updatedAt'' (VStr ''2016-09-02T00:00:00+00:00'')
          (set_bookmark ''campaigns'' ''next_page_token'' VNone
             (write_record ''campaigns'' ex_campaign_record
                (called (Request ''GET'' ''rest/v1/campaigns.json'' ''campaigns''
                    [(''batchSize'', VInt 300)]) ex_paged))))"

definition ex_future_end :: world where
  "ex_future_end =
     write_state
       (set_bookmark ''programs'' ''updatedAt'' (VStr ''2016-11-06T00:00:00+00:00'')
          (called (Request ''GET'' ''rest/asset/v1/programs.json'' ''programs''
              (programs_params 200 (VStr ''2030-01-01T00:00:00+00:00'') ''2016-11-06T00:00:00+00:00''))
             (called (Request ''GET'' ''rest/asset/v1/programs.json'' ''programs''
                 (programs_params 0 (VStr ''2030-01-01T00:00:00+00:00'') ''2016-11-06T00:00:00+00:00''))
                (ex_future\<lparr>tick := Suc (tick ex_future)\<rparr>))))"

section \<open>Notions used in the statements\<close>

text \<open>
  One cursor is not later than another: the two bookmark values are the same, or both
  parse as timestamps and the first instant is not after the second.
\<close>

definition cursor_le :: "runtime \<Rightarrow> val \<Rightarrow> val \<Rightarrow> bool" where
  "cursor_le rt a b =
     (a = b \<or> (case (parse rt a, parse rt b) of
                  (Inr da, Inr db) \<Rightarrow> instant da \<le> instant db
                | _ \<Rightarrow> False))"

text \<open>
  The record that \<^verbatim>\<open>handle_activity_line\<close> builds from one line of an export, before it
  decides whether to emit it.
\<close>

definition line_record :: "runtime \<Rightarrow> stream \<Rightarrow> string list \<Rightarrow> string \<Rightarrow> error + row" where
  "line_record rt s headers line =
     (case parse_csv_line rt line of
        Inl e \<Rightarrow> Inl e
      | Inr parsed_line \<Rightarrow>
          (case flatten_activity rt (dict_zip headers parsed_line Map.empty) (properties s) of
             Inl e \<Rightarrow> Inl e
           | Inr r \<Rightarrow> format_values rt s r))"

text \<open>
  The records among the events sent out, the records that the rows of a page and the
  lines of an export format to, and the test that a record's replication-key value is at
  least a cursor (Python's \<^verbatim>\<open>>=\<close> gives \<^verbatim>\<open>True\<close>). \<open>is_cursor\<close> holds of the values a
  cursor bookmark takes: a timestamp string, or \<^verbatim>\<open>None\<close> when nothing is bookmarked.
\<close>

fun written :: "event list \<Rightarrow> (string \<times> row) list" where
  "written [] = []"
| "written (WriteRecord n r # es) = (n, r) # written es"
| "written (e # es) = written es"





text \<open>
  The client requests among the events sent out; whether a response carries the sentinel
  warning; and, for \<^verbatim>\<open>sync_programs\<close>, the request with the \<open>i\<close>-th offset and the
  client's response to it when the first request is the interaction number \<open>t0\<close>.
\<close>

fun requests :: "event list \<Rightarrow> event list" where
  "requests [] = []"
| "requests (Request m e n p # es) = Request m e n p # requests es"
| "requests (ev # es) = requests es"




section \<open>Formatted records\<close>

lemma format_value_none:
  "format_value rt VNone schema = Inr v \<Longrightarrow> v = VNone"
  by (auto simp: format_value_def split: option.splits)

lemma format_values_loop_fields:
  "format_values_loop rt props r rtn = Inr rcd \<Longrightarrow>
   dom rcd = dom rtn \<union> {f. \<exists>schema. (f, schema) \<in> set props \<and> fselected schema}"
proof (induction props arbitrary: rtn)
  case Nil
  then show ?case by simp
next
  case (Cons p props)
  obtain field schema where p: "p = (field, schema)" by (cases p)
  show ?case
  proof (cases "fselected schema")
    case False
    with Cons.prems p have "format_values_loop rt props r rtn = Inr rcd" by simp
    from Cons.IH [OF this] False p show ?thesis by auto
  next
    case True
    with Cons.prems p obtain v where
      "format_values_loop rt props r (rtn(field \<mapsto> v)) = Inr rcd"
      by (auto split: sum.splits)
    from Cons.IH [OF this] True p show ?thesis by (auto split: if_splits)
  qed
qed

lemma format_values_loop_other:
  "format_values_loop rt props r rtn = Inr rcd \<Longrightarrow>
   \<forall>schema. (f, schema) \<in> set props \<longrightarrow> \<not> fselected schema \<Longrightarrow> rcd f = rtn f"
proof (induction props arbitrary: rtn)
  case Nil
  then show ?case by simp
next
  case (Cons p props)
  obtain field schema where p: "p = (field, schema)" by (cases p)
  show ?case
  proof (cases "fselected schema")
    case False
    with Cons.prems p have "format_values_loop rt props r rtn = Inr rcd" by simp
    from Cons.IH [OF this] Cons.prems(2) show ?thesis by auto
  next
    case True
    with Cons.prems p obtain v where
      run: "format_values_loop rt props r (rtn(field \<mapsto> v)) = Inr rcd"
      by (auto split: sum.splits)
    from True p Cons.prems(2) have "f \<noteq> field" by auto
    with Cons.IH [OF run] Cons.prems(2) show ?thesis by auto
  qed
qed

lemma format_values_loop_absent:
  "format_values_loop rt props r rtn = Inr rcd \<Longrightarrow>
   (f, schema) \<in> set props \<Longrightarrow> fselected schema \<Longrightarrow> r f = None \<Longrightarrow> rcd f = Some VNone"
proof (induction props arbitrary: rtn schema)
  case Nil
  then show ?case by simp
next
  case (Cons p props)
  obtain field sch where p: "p = (field, sch)" by (cases p)
  show ?case
  proof (cases "fselected sch")
    case False
    with Cons.prems p have run: "format_values_loop rt props r rtn = Inr rcd" by simp
    from False p Cons.prems(2,3) have "(f, schema) \<in> set props" by auto
    from Cons.IH [OF run this Cons.prems(3,4)] show ?thesis .
  next
    case True
    with Cons.prems p obtain v where
      v: "format_value rt (row_get r field) sch = Inr v" and
      run: "format_values_loop rt props r (rtn(field \<mapsto> v)) = Inr rcd"
      by (auto split: sum.splits)
    show ?thesis
    proof (cases "\<exists>sch'. (f, sch') \<in> set props \<and> fselected sch'")
      case True
      then obtain sch' where "(f, sch') \<in> set props" "fselected sch'" by blast
      from Cons.IH [OF run this Cons.prems(4)] show ?thesis .
    next
      case False
      with Cons.prems(2,3) p have eq: "f = field" by auto
      from False have "\<forall>sch'. (f, sch') \<in> set props \<longrightarrow> \<not> fselected sch'" by blast
      from format_values_loop_other [OF run this] eq have "rcd f = Some v" by simp
      moreover from v eq Cons.prems(4) have "v = VNone"
        by (auto simp: row_get_def dest: format_value_none)
      ultimately show ?thesis by simp
    qed
  qed
qed

text \<open>
  C10. Whenever \<open>format_values\<close> produces a record, the fields of the record are exactly the
  fields of the stream's schema that are marked selected (so a field that is not selected
  is never in it), and a selected field that the row does not have is in the record with
  the value \<^verbatim>\<open>None\<close>.
\<close>

theorem format_values_selected_fields:
  assumes "format_values rt s r = Inr rcd"
  shows "dom rcd = {f. \<exists>schema. (f, schema) \<in> set (properties s) \<and> fselected schema}
       \<and> (\<forall>f schema. (f, schema) \<in> set (properties s) \<and> fselected schema \<and> r f = None
            \<longrightarrow> rcd f = Some VNone)"
  using assms format_values_loop_fields [of rt "properties s" r Map.empty rcd]
    format_values_loop_absent [of rt "properties s" r Map.empty rcd]
  by (auto simp: format_values_def)

lemma ex_campaign_formatted:
  "format_values ex_rt ex_campaigns ex_campaign_row = Inr ex_campaign_record"
  by (simp add: format_values_def ex_campaigns_def ex_campaign_row_def ex_campaign_record_def
      ex_rt_def ex_times_def ex_raw_times_def format_value_def row_get_def ex_string_field_def
      ex_date_field_def)

text \<open>C10 at a concrete input: a campaign row without a name and with an unselected field.\<close>

theorem format_values_selected_fields_witness:
  "format_values ex_rt ex_campaigns ex_campaign_row = Inr ex_campaign_record
   \<and> dom ex_campaign_record =
       {f. \<exists>schema. (f, schema) \<in> set (properties ex_campaigns) \<and> fselected schema}
   \<and> ex_campaign_record ''name'' = Some VNone"
proof -
  note t = format_values_selected_fields [OF ex_campaign_formatted]
  from t have a: "dom ex_campaign_record =
      {f. \<exists>schema. (f, schema) \<in> set (properties ex_campaigns) \<and> fselected schema}"
    by (rule conjunct1)
  have "(''name'', ex_string_field True) \<in> set (properties ex_campaigns)"
    by (simp add: ex_campaigns_def)
  moreover have "fselected (ex_string_field True)"
    by (simp add: ex_string_field_def)
  moreover have "ex_campaign_row ''name'' = None"
    by (simp add: ex_campaign_row_def)
  ultimately have b: "ex_campaign_record ''name'' = Some VNone"
    using t by blast
  from ex_campaign_formatted a b show ?thesis by (intro conjI)
qed

section \<open>The world and the bookmarks\<close>

lemma state_emit [simp]: "state (emit e w) = state w"
  and out_emit [simp]: "out (emit e w) = out w @ [e]"
  and tick_emit [simp]: "tick (emit e w) = tick w"
  by (simp_all add: emit_def)

lemma state_write_state [simp]: "state (write_state w) = state w"
  and out_write_state [simp]: "out (write_state w) = out w @ [WriteState (state w)]"
  and tick_write_state [simp]: "tick (write_state w) = tick w"
  by (simp_all add: write_state_def)

lemma state_write_record [simp]: "state (write_record n r w) = state w"
  and out_write_record [simp]: "out (write_record n r w) = out w @ [WriteRecord n r]"
  and tick_write_record [simp]: "tick (write_record n r w) = tick w"
  by (simp_all add: write_record_def)

lemma state_called [simp]: "state (called e w) = state w"
  and out_called [simp]: "out (called e w) = out w @ [e]"
  and tick_called [simp]: "tick (called e w) = Suc (tick w)"
  by (simp_all add: called_def)

lemma state_set_bookmark [simp]:
  "state (set_bookmark n k v w) = write_bookmark (state w) n k v"
  and out_set_bookmark [simp]: "out (set_bookmark n k v w) = out w"
  and tick_set_bookmark [simp]: "tick (set_bookmark n k v w) = tick w"
  by (simp_all add: set_bookmark_def)

lemma get_write_bookmark [simp]:
  "get_bookmark (write_bookmark st n k v) n' k' =
     (if n' = n \<and> k' = k then v else get_bookmark st n' k')"
  by (simp add: get_bookmark_def write_bookmark_def split: option.splits)

lemma currently_syncing_write_bookmark [simp]:
  "currently_syncing (write_bookmark st n k v) = currently_syncing st"
  by (simp add: write_bookmark_def)


lemma get_or_create_export_frame:
  "get_or_create_export rt c s w = (r, w') \<Longrightarrow> w' = w"
  by (auto simp: get_or_create_export_def Let_def split: if_splits option.splits)

lemma get_or_create_export_missing:
  "\<not> truthy rt (get_bookmark (state w) (stream_name s) ''export_id'') \<Longrightarrow>
   \<exists>e. get_or_create_export rt c s w = (Inl e, w)"
  by (auto simp: get_or_create_export_def Let_def split: option.splits)

lemma get_or_create_export_bookmarked:
  "truthy rt (get_bookmark (state w) (stream_name s) ''export_id'') \<Longrightarrow>
   get_or_create_export rt c s w = (Inr (get_bookmark (state w) (stream_name s) ''export_id''), w)"
  by (simp add: get_or_create_export_def)

lemma ex_backlog_bookmarks:
  "get_bookmark (state ex_backlog) ''activities_1'' ''activityDate'' = VStr ''2016-09-02T00:00:00+00:00''"
  "get_bookmark (state ex_backlog) ''activities_1'' ''export_id'' = VNone"
  by (simp_all add: ex_backlog_def ex_world_def get_bookmark_def)

section \<open>Exports of activities\<close>

text \<open>
  C2. The claim says that with no export bookmarked the function computes the window,
  creates the export and stores its id and end. On such a state (a cursor and no
  \<^verbatim>\<open>export_id\<close>) the function raises \<^verbatim>\<open>NameError\<close> instead and leaves the world as it
  was: no export is created and nothing is stored.
\<close>

theorem get_or_create_export_name_error:
  "get_bookmark (state ex_backlog) (stream_name ex_activities) ''activityDate''
     = VStr ''2016-09-02T00:00:00+00:00''
   \<and> get_bookmark (state ex_backlog) (stream_name ex_activities) ''export_id'' = VNone
   \<and> get_or_create_export ex_rt ex_client ex_activities ex_backlog
       = (Inl (NameError ''start_pen''), ex_backlog)"
proof -
  have n: "stream_name ex_activities = ''activities_1''"
    by (simp add: ex_activities_def)
  have "get_or_create_export ex_rt ex_client ex_activities ex_backlog
      = (Inl (NameError ''start_pen''), ex_backlog)"
    by (simp add: get_or_create_export_def ex_backlog_bookmarks ex_activities_def)
  with ex_backlog_bookmarks show ?thesis by (simp add: n)
qed

text \<open>
  C3. The claim says that a cursor 65 days before the current time makes
  \<^verbatim>\<open>sync_activities\<close> issue three export jobs. On that input (cursor 2016-09-02, clock
  2016-11-06) the first pass through the loop raises \<^verbatim>\<open>NameError\<close> in
  \<^verbatim>\<open>get_or_create_export\<close>: the run ends with that error and has sent nothing, so no
  export job was issued.
\<close>

theorem sync_activities_backlog_name_error:
  "parse ex_rt (get_bookmark (state ex_backlog) (stream_name ex_activities) ''activityDate'')
     = Inr \<lparr>instant = 1472774400000000, utcoffset = 0\<rparr>
   \<and> instant (utcnow ex_rt (tick ex_backlog)) - 1472774400000000 = 65 * (86400 * 1000000)
   \<and> get_bookmark (state ex_backlog) (stream_name ex_activities) ''export_id'' = VNone
   \<and> sync_activities ex_rt ex_client ex_activities ex_backlog
       = Some (Inl (NameError ''start_pen''), ex_backlog\<lparr>tick := 1\<rparr>)
   \<and> out (ex_backlog\<lparr>tick := 1\<rparr>) = []"
proof -
  have n: "stream_name ex_activities = ''activities_1''"
    and rk: "replication_key ex_activities = Some ''activityDate''"
    by (simp_all add: ex_activities_def)
  have cur: "get_bookmark (state ex_backlog) (stream_name ex_activities) ''activityDate''
      = VStr ''2016-09-02T00:00:00+00:00''"
    and none: "get_bookmark (state ex_backlog) (stream_name ex_activities) ''export_id'' = VNone"
    using ex_backlog_bookmarks by (simp_all add: n)
  have p: "parse ex_rt (VStr ''2016-09-02T00:00:00+00:00'')
      = Inr \<lparr>instant = 1472774400000000, utcoffset = 0\<rparr>"
    by (simp add: ex_rt_def ex_times_def ex_raw_times_def)
  have now: "\<And>t. utcnow ex_rt t = \<lparr>instant = 1478390400000000, utcoffset = 0\<rparr>"
    by (simp add: ex_rt_def)
  have days: "instant (utcnow ex_rt (tick ex_backlog)) - 1472774400000000 = 65 * (86400 * 1000000)"
    by (simp add: now)
  have g: "get_or_create_export ex_rt ex_client ex_activities (ex_backlog\<lparr>tick := Suc 0\<rparr>)
      = (Inl (NameError ''start_pen''), ex_backlog\<lparr>tick := Suc 0\<rparr>)"
    using ex_backlog_bookmarks
    by (simp add: get_or_create_export_def ex_activities_def)
  have t0: "tick ex_backlog = 0" "out ex_backlog = []"
    by (simp_all add: ex_backlog_def ex_world_def)
  have run: "sync_activities ex_rt ex_client ex_activities ex_backlog
       = Some (Inl (NameError ''start_pen''), ex_backlog\<lparr>tick := 1\<rparr>)"
    unfolding sync_activities_def
    by (simp add: rk cur p now activities_loop.simps activities_body_def g t0)
  have quiet: "out (ex_backlog\<lparr>tick := 1\<rparr>) = []"
    by (simp add: t0)
  from cur p have "parse ex_rt (get_bookmark (state ex_backlog) (stream_name ex_activities)
      ''activityDate'') = Inr \<lparr>instant = 1472774400000000, utcoffset = 0\<rparr>"
    by simp
  with days none run quiet show ?thesis by (intro conjI)
qed


section \<open>The orchestrator: unrecognised streams and resuming\<close>

text \<open>
  C4, as amended. When the loop of \<^verbatim>\<open>sync\<close> reaches a selected stream that the resume
  marker does not skip and whose name is none of the recognised ones, it ends with the
  fatal error for that stream without calling the client and without touching any bookmark;
  the one change to the state is that \<^verbatim>\<open>currently_syncing\<close> was set to the stream's name,
  and that state was emitted, before the error.
\<close>

theorem unrecognized_stream_fatal:
  assumes sel: "selected s" and due: "\<not> already_synced starting_stream s"
    and n1: "stream_name s \<noteq> ''activity_types''"
    and n2: "\<not> startswith (stream_name s) ''activities_''"
    and n3: "stream_name s \<noteq> ''campaigns''" and n4: "stream_name s \<noteq> ''lists''"
    and n5: "stream_name s \<noteq> ''programs''"
  shows "\<exists>w'. sync_streams rt c starting_stream (s # rest) w
             = Some (Inl (StreamNotImplemented (stream_name s)), w')
           \<and> bookmarks (state w') = bookmarks (state w)
           \<and> currently_syncing (state w') = Some (stream_name s)
           \<and> tick w' = tick w
           \<and> out w' = out w @ [LogInfo (stream_name s @ '': starting sync''), WriteState (state w')]"
  using assms
  by (simp add: sync_stream_def begin_stream_def set_currently_syncing_def)

text \<open>
  C4 as stated fails: a catalog whose only stream is the unrecognised \<^verbatim>\<open>leads\<close>, run from
  the empty state, ends with the error in a state whose \<^verbatim>\<open>currently_syncing\<close> is \<^verbatim>\<open>leads\<close>,
  and that state has been emitted.
\<close>

theorem unrecognized_stream_changes_state:
  "sync ex_rt ex_client \<lparr>streams = [ex_leads]\<rparr> (ex_world [])
     = Some (Inl (StreamNotImplemented ''leads''),
         \<lparr>state = \<lparr>bookmarks = Map.empty, currently_syncing = Some ''leads''\<rparr>,
          out = [LogInfo ''Starting sync'', LogInfo ''leads: starting sync'',
                 WriteState \<lparr>bookmarks = Map.empty, currently_syncing = Some ''leads''\<rparr>],
          tick = 0\<rparr>)
   \<and> state (ex_world []) = \<lparr>bookmarks = Map.empty, currently_syncing = None\<rparr>"
  by (simp add: sync_def get_currently_syncing_def ex_world_def log_start_def finish_sync_def
      ex_leads_def ex_campaigns_def already_synced_def sync_stream_def startswith_def
      begin_stream_def set_currently_syncing_def emit_def write_state_def)

text \<open>
  C5. With \<^verbatim>\<open>currently_syncing\<close> equal to \<^verbatim>\<open>campaigns\<close> and the selected streams
  \<^verbatim>\<open>activity_types\<close>, \<^verbatim>\<open>campaigns\<close>, \<^verbatim>\<open>lists\<close> in that order, \<^verbatim>\<open>sync\<close> does nothing for
  \<^verbatim>\<open>activity_types\<close> but log that it is already synced, and then runs as a sync without
  marker over \<^verbatim>\<open>campaigns\<close> and \<^verbatim>\<open>lists\<close>: \<^verbatim>\<open>campaigns\<close> is dispatched first and,
  when its strategy returns, \<^verbatim>\<open>lists\<close> is dispatched, not skipped.
\<close>

theorem resume_skips_to_campaigns:
  assumes marker: "get_currently_syncing (state w) = Some ''campaigns''"
    and names: "stream_name a = ''activity_types''" "stream_name b = ''campaigns''"
      "stream_name l = ''lists''"
    and sel: "selected a" "selected b" "selected l"
  shows "sync rt c \<lparr>streams = [a, b, l]\<rparr> w
       = finish_sync c (sync_streams rt c None [b, l]
           (emit (LogInfo ''activity_types: already synced'')
              (emit (LogInfo ''Resuming sync from campaigns'') w)))
     \<and> sync_streams rt c None [b, l] w1
       = (case sync_paginated rt c b (begin_stream b w1) of
            None \<Rightarrow> None
          | Some (Inl e, w2) \<Rightarrow> Some (Inl e, w2)
          | Some (Inr n, w2) \<Rightarrow>
              (case sync_paginated rt c l (begin_stream l (end_stream b n w2)) of
                 None \<Rightarrow> None
               | Some (Inl e, w3) \<Rightarrow> Some (Inl e, w3)
               | Some (Inr m, w3) \<Rightarrow> Some (Inr (), end_stream l m w3)))"
proof -
  have db: "sync_stream rt c b = sync_paginated rt c b"
    by (rule ext) (simp add: sync_stream_def names startswith_def)
  have dl: "sync_stream rt c l = sync_paginated rt c l"
    by (rule ext) (simp add: sync_stream_def names startswith_def)
  have first: "sync rt c \<lparr>streams = [a, b, l]\<rparr> w
       = finish_sync c (sync_streams rt c None [b, l]
           (emit (LogInfo ''activity_types: already synced'')
              (emit (LogInfo ''Resuming sync from campaigns'') w)))"
    using marker
    by (simp add: sync_def log_start_def already_synced_def names sel
        split: option.splits sum.splits prod.splits)
  have second: "sync_streams rt c None [b, l] w1
       = (case sync_paginated rt c b (begin_stream b w1) of
            None \<Rightarrow> None
          | Some (Inl e, w2) \<Rightarrow> Some (Inl e, w2)
          | Some (Inr n, w2) \<Rightarrow>
              (case sync_paginated rt c l (begin_stream l (end_stream b n w2)) of
                 None \<Rightarrow> None
               | Some (Inl e, w3) \<Rightarrow> Some (Inl e, w3)
               | Some (Inr m, w3) \<Rightarrow> Some (Inr (), end_stream l m w3)))"
    by (simp add: already_synced_def sel db dl split: option.splits sum.splits prod.splits)
  from first second show ?thesis by (rule conjI)
qed


text \<open>C4, as amended, at a concrete input: the unrecognised stream \<^verbatim>\<open>leads\<close>.\<close>

theorem unrecognized_stream_fatal_witness:
  "selected ex_leads \<and> \<not> already_synced None ex_leads
   \<and> \<not> startswith (stream_name ex_leads) ''activities_''
   \<and> (\<exists>w'. sync_streams ex_rt ex_client None [ex_leads] (ex_world [])
             = Some (Inl (StreamNotImplemented (stream_name ex_leads)), w')
         \<and> bookmarks (state w') = bookmarks (state (ex_world []))
         \<and> currently_syncing (state w') = Some (stream_name ex_leads)
         \<and> tick w' = tick (ex_world [])
         \<and> out w' = out (ex_world [])
              @ [LogInfo (stream_name ex_leads @ '': starting sync''), WriteState (state w')])"
proof -
  have sel: "selected ex_leads"
    by (simp add: ex_leads_def ex_campaigns_def)
  have due: "\<not> already_synced None ex_leads"
    by (simp add: already_synced_def)
  have n: "stream_name ex_leads \<noteq> ''activity_types''"
    "\<not> startswith (stream_name ex_leads) ''activities_''"
    "stream_name ex_leads \<noteq> ''campaigns''" "stream_name ex_leads \<noteq> ''lists''"
    "stream_name ex_leads \<noteq> ''programs''"
    by (simp_all add: ex_leads_def startswith_def)
  from unrecognized_stream_fatal [OF sel due n, of ex_rt ex_client "[]" "ex_world []"] sel due n(2)
  show ?thesis by (intro conjI)
qed

lemma get_bookmark_set_currently_syncing [simp]:
  "get_bookmark (set_currently_syncing st x) n k = get_bookmark st n k"
  by (simp add: get_bookmark_def set_currently_syncing_def)

lemma state_begin_stream [simp]:
  "state (begin_stream s w) = set_currently_syncing (state w) (Some (stream_name s))"
  and out_begin_stream [simp]:
  "out (begin_stream s w) = out w @ [LogInfo (stream_name s @ '': starting sync''),
      WriteState (set_currently_syncing (state w) (Some (stream_name s)))]"
  and tick_begin_stream [simp]: "tick (begin_stream s w) = tick w"
  by (simp_all add: begin_stream_def)

lemma state_end_stream [simp]:
  "state (end_stream s n w) = set_currently_syncing (state w) None"
  and out_end_stream [simp]:
  "out (end_stream s n w) = out w @ [RecordCounter (stream_name s) n,
      WriteState (set_currently_syncing (state w) None), LogInfo (stream_name s @ '': finished sync'')]"
  and tick_end_stream [simp]: "tick (end_stream s n w) = tick w"
  by (simp_all add: end_stream_def)

lemma log_lines_append [simp]: "log_lines (xs @ ys) = log_lines xs @ log_lines ys"
  by (induction xs rule: log_lines.induct) simp_all

lemma ex_ge: "py_cmp ex_rt Ge (VStr ''2016-10-01T00:00:00+00:00'') (VStr ''2016-09-02T00:00:00+00:00'') = Inr True"
  by (simp add: py_cmp_def str_le_def)

lemma ex_gt: "py_cmp ex_rt Gt (VStr ''2016-09-02T00:00:00+00:00'') (VStr ''2016-09-02T00:00:00+00:00'') = Inr False"
  by (simp add: py_cmp_def)

lemma ex_paginated_campaigns:
  assumes "get_bookmark (state w) ''campaigns'' ''updatedAt'' = VStr ''2016-09-02T00:00:00+00:00''"
    and "get_bookmark (state w) ''campaigns'' ''next_page_token'' = VNone"
  shows "sync_paginated ex_rt ex_client ex_campaigns w
     = Some (Inr 1, write_state
         (set_bookmark ''campaigns'' ''updatedAt'' (VStr ''2016-09-02T00:00:00+00:00'')
            (set_bookmark ''campaigns'' ''next_page_token'' VNone
               (write_record ''campaigns'' ex_campaign_record
                  (called (Request ''GET'' ''rest/v1/campaigns.json'' ''campaigns''
                      [(''batchSize'', VInt 300)]) w)))))"
proof -
  have n: "stream_name ex_campaigns = ''campaigns''"
    and rk: "replication_key ex_campaigns = Some ''updatedAt''"
    by (simp_all add: ex_campaigns_def)
  have req: "request ex_client t ''GET'' ''rest/v1/campaigns.json'' ''campaigns'' ps
      = \<lparr>warnings = None, result = Some [ex_campaign_row], nextPageToken = None\<rparr>" for t ps
    by (simp add: ex_client_def)
  have key: "ex_campaign_record ''updatedAt'' = Some (VStr ''2016-10-01T00:00:00+00:00'')"
    by (simp add: ex_campaign_record_def)
  have rows: "paginated_rows ex_rt ex_campaigns ''updatedAt'' (VStr ''2016-09-02T00:00:00+00:00'')
        [ex_campaign_row] 0 (VStr ''2016-09-02T00:00:00+00:00'') w1
      = (Inr (1, VStr ''2016-09-02T00:00:00+00:00''), write_record ''campaigns'' ex_campaign_record w1)"
    if "get_bookmark (state w1) ''campaigns'' ''updatedAt'' = VStr ''2016-09-02T00:00:00+00:00''" for w1
    using that by (simp add: ex_campaign_formatted key ex_ge ex_gt n)
  have body: "paginated_body ex_rt ex_client ex_campaigns ''updatedAt''
        (VStr ''2016-09-02T00:00:00+00:00'') None 0 (VStr ''2016-09-02T00:00:00+00:00'') w
      = (Inr (Break (1, VStr ''2016-09-02T00:00:00+00:00'')),
         write_record ''campaigns'' ex_campaign_record
           (called (Request ''GET'' ''rest/v1/campaigns.json'' ''campaigns''
               [(''batchSize'', VInt 300)]) w))"
    using assms(1)
    by (simp add: paginated_body_def paginated_params_def paginated_endpoint_def n req rows Let_def
        del: paginated_rows.simps)
  show ?thesis
    using assms by (simp add: sync_paginated_def rk n paginated_loop.simps body)
qed

lemma ex_paginated_lists:
  assumes "get_bookmark (state w) ''lists'' ''next_page_token'' = VNone"
  shows "sync_paginated ex_rt ex_client ex_lists w
     = Some (Inr 0, write_state
         (set_bookmark ''lists'' ''updatedAt'' (get_bookmark (state w) ''lists'' ''updatedAt'')
            (set_bookmark ''lists'' ''next_page_token'' VNone
               (called (Request ''GET'' ''rest/v1/lists.json'' ''lists''
                   [(''batchSize'', VInt 300)]) w))))"
proof -
  have n: "stream_name ex_lists = ''lists''"
    and rk: "replication_key ex_lists = Some ''updatedAt''"
    by (simp_all add: ex_lists_def ex_campaigns_def)
  have req: "request ex_client t ''GET'' ''rest/v1/lists.json'' ''lists'' ps
      = \<lparr>warnings = None, result = Some [], nextPageToken = None\<rparr>" for t ps
    by (simp add: ex_client_def)
  have body: "paginated_body ex_rt ex_client ex_lists ''updatedAt'' sd None 0 sd w
      = (Inr (Break (0, sd)),
         called (Request ''GET'' ''rest/v1/lists.json'' ''lists'' [(''batchSize'', VInt 300)]) w)" for sd
    by (simp add: paginated_body_def paginated_params_def paginated_endpoint_def n req)
  show ?thesis
    using assms by (simp add: sync_paginated_def rk n paginated_loop.simps body)
qed

text \<open>C5 at a concrete input, with the log lines of the whole run.\<close>

theorem resume_skips_to_campaigns_witness:
  "get_currently_syncing (state ex_resume) = Some ''campaigns''
   \<and> selected ex_activity_types \<and> selected ex_campaigns \<and> selected ex_lists
   \<and> sync ex_rt ex_client \<lparr>streams = [ex_activity_types, ex_campaigns, ex_lists]\<rparr> ex_resume
       = finish_sync ex_client (sync_streams ex_rt ex_client None [ex_campaigns, ex_lists]
           (emit (LogInfo ''activity_types: already synced'')
              (emit (LogInfo ''Resuming sync from campaigns'') ex_resume)))
   \<and> (\<exists>w'. sync ex_rt ex_client \<lparr>streams = [ex_activity_types, ex_campaigns, ex_lists]\<rparr> ex_resume
               = Some (Inr (), w')
          \<and> log_lines (out w') =
              [''Resuming sync from campaigns'', ''activity_types: already synced'',
               ''campaigns: starting sync'', ''campaigns: finished sync'',
               ''lists: starting sync'', ''lists: finished sync'', ''Finished sync''])"
proof -
  have marker: "get_currently_syncing (state ex_resume) = Some ''campaigns''"
    by (simp add: ex_resume_def get_currently_syncing_def)
  have names: "stream_name ex_activity_types = ''activity_types''"
    "stream_name ex_campaigns = ''campaigns''" "stream_name ex_lists = ''lists''"
    by (simp_all add: ex_activity_types_def ex_lists_def ex_campaigns_def)
  have sel: "selected ex_activity_types" "selected ex_campaigns" "selected ex_lists"
    by (simp_all add: ex_activity_types_def ex_lists_def ex_campaigns_def)
  note t = resume_skips_to_campaigns [OF marker names sel, of ex_rt ex_client]
  have bm: "get_bookmark (state ex_resume) ''campaigns'' ''updatedAt'' = VStr ''2016-09-02T00:00:00+00:00''"
    "get_bookmark (state ex_resume) ''campaigns'' ''next_page_token'' = VNone"
    "get_bookmark (state ex_resume) ''lists'' ''next_page_token'' = VNone"
    by (simp_all add: ex_resume_def ex_world_def get_bookmark_def)
  have o: "out ex_resume = []"
    by (simp add: ex_resume_def ex_world_def)
  have uc: "use_corona ex_client"
    by (simp add: ex_client_def)
  have run: "\<exists>w'. sync ex_rt ex_client \<lparr>streams = [ex_activity_types, ex_campaigns, ex_lists]\<rparr> ex_resume
               = Some (Inr (), w')
          \<and> log_lines (out w') =
              [''Resuming sync from campaigns'', ''activity_types: already synced'',
               ''campaigns: starting sync'', ''campaigns: finished sync'',
               ''lists: starting sync'', ''lists: finished sync'', ''Finished sync'']"
    unfolding t [THEN conjunct1] t [THEN conjunct2]
    by (simp add: ex_paginated_campaigns ex_paginated_lists bm names o finish_sync_def uc)
  from marker sel t [THEN conjunct1] run show ?thesis by (intro conjI)
qed

section \<open>What the strategies do to the cursor\<close>

lemma handle_activity_line_frame:
  "handle_activity_line rt s headers line w = (r, w') \<Longrightarrow> state w' = state w \<and> tick w' = tick w"
  by (auto simp: handle_activity_line_def Let_def
      split: sum.splits option.splits bool.splits)

lemma drain_lines_frame:
  "drain_lines rt s headers lines n w = (r, w') \<Longrightarrow> state w' = state w \<and> tick w' = tick w"
proof (induction lines arbitrary: n w)
  case Nil
  then show ?case by simp
next
  case (Cons line lines)
  obtain r1 w1 where h: "handle_activity_line rt s headers line w = (r1, w1)"
    by (cases "handle_activity_line rt s headers line w")
  from handle_activity_line_frame [OF h] have f: "state w1 = state w" "tick w1 = tick w"
    by simp_all
  show ?case
  proof (cases r1)
    case (Inl e)
    with Cons.prems h f show ?thesis by simp
  next
    case (Inr m)
    with Cons.prems h have "drain_lines rt s headers lines (n + m) w1 = (r, w')" by simp
    from Cons.IH [OF this] f show ?thesis by simp
  qed
qed

lemma paginated_rows_frame:
  "paginated_rows rt s rk sd rows n mb w = (r, w') \<Longrightarrow> state w' = state w \<and> tick w' = tick w"
proof (induction rows arbitrary: n mb w)
  case Nil
  then show ?case by simp
next
  case (Cons row rows)
  from Cons.prems show ?case
    by (auto simp: Let_def split: sum.splits option.splits bool.splits dest!: Cons.IH)
qed

lemma paginated_rows_max:
  "paginated_rows rt s rk sd rows n mb w = (Inr (n', mb'), w') \<Longrightarrow> mb = sd \<Longrightarrow>
   get_bookmark (state w) (stream_name s) rk = sd \<Longrightarrow> mb' = sd"
  by (induction rt s rk sd rows n mb w rule: paginated_rows.induct)
    (auto simp: Let_def split: sum.splits option.splits bool.splits)

lemma paginated_body_cursor:
  assumes "paginated_body rt c s rk sd token n sd w = (Inr st, w')"
    and "get_bookmark (state w) (stream_name s) rk = sd" and "rk \<noteq> ''next_page_token''"
  shows "get_bookmark (state w') (stream_name s) rk = sd
       \<and> (case st of Break (n', mb') \<Rightarrow> mb' = sd | Continue (token', n', mb') \<Rightarrow> mb' = sd)"
proof -
  let ?w1 = "called (Request ''GET'' (paginated_endpoint s) (stream_name s) (paginated_params token)) w"
  from assms(1) obtain rows n' mb' w2 where
    rows: "paginated_rows rt s rk sd rows n sd ?w1 = (Inr (n', mb'), w2)"
    and st: "(st = Break (n', mb') \<and> w' = w2)
       \<or> (\<exists>t. st = Continue (Some t, n', mb')
              \<and> w' = write_state (set_bookmark (stream_name s) ''next_page_token'' t w2))"
    by (auto simp: paginated_body_def Let_def split: option.splits sum.splits prod.splits)
  from assms(2) have "get_bookmark (state ?w1) (stream_name s) rk = sd" by simp
  from paginated_rows_max [OF rows refl this] have mb: "mb' = sd" .
  from paginated_rows_frame [OF rows] assms(2)
  have "get_bookmark (state w2) (stream_name s) rk = sd" by simp
  with st mb assms(3) show ?thesis by auto
qed

lemma paginated_loop_cursor:
  assumes ret: "paginated_loop rt c s rk sd token n mb w = Some y"
  shows "mb = sd \<longrightarrow> get_bookmark (state w) (stream_name s) rk = sd \<longrightarrow> rk \<noteq> ''next_page_token''
      \<longrightarrow> (\<forall>n' mb' w'. y = (Inr (n', mb'), w')
             \<longrightarrow> mb' = sd \<and> get_bookmark (state w') (stream_name s) rk = sd)"
proof (rule paginated_loop.raw_induct
    [where P = "\<lambda>rt c s rk sd token n mb w y.
       mb = sd \<longrightarrow> get_bookmark (state w) (stream_name s) rk = sd \<longrightarrow> rk \<noteq> ''next_page_token''
         \<longrightarrow> (\<forall>n' mb' w'. y = (Inr (n', mb'), w')
                \<longrightarrow> mb' = sd \<and> get_bookmark (state w') (stream_name s) rk = sd)",
     OF _ ret])
  fix f rt c s rk sd token n mb w y
  assume IH: "\<And>rt c s rk sd token n mb w y. f rt c s rk sd token n mb w = Some y \<Longrightarrow>
      mb = sd \<longrightarrow> get_bookmark (state w) (stream_name s) rk = sd \<longrightarrow> rk \<noteq> ''next_page_token''
        \<longrightarrow> (\<forall>n' mb' w'. y = (Inr (n', mb'), w')
               \<longrightarrow> mb' = sd \<and> get_bookmark (state w') (stream_name s) rk = sd)"
    and step: "(case paginated_body rt c s rk sd token n mb w of
         (Inl e, w') \<Rightarrow> Some (Inl e, w')
       | (Inr (Break r), w') \<Rightarrow> Some (Inr r, w')
       | (Inr (Continue (token', record_count', max_bookmark')), w') \<Rightarrow>
           f rt c s rk sd token' record_count' max_bookmark' w') = Some y"
  show "mb = sd \<longrightarrow> get_bookmark (state w) (stream_name s) rk = sd \<longrightarrow> rk \<noteq> ''next_page_token''
      \<longrightarrow> (\<forall>n' mb' w'. y = (Inr (n', mb'), w')
             \<longrightarrow> mb' = sd \<and> get_bookmark (state w') (stream_name s) rk = sd)"
  proof (intro impI allI)
    fix n' mb' w'
    assume mb: "mb = sd" and cur: "get_bookmark (state w) (stream_name s) rk = sd"
      and rk: "rk \<noteq> ''next_page_token''" and y: "y = (Inr (n', mb'), w')"
    obtain r1 w1 where body: "paginated_body rt c s rk sd token n mb w = (r1, w1)"
      by (cases "paginated_body rt c s rk sd token n mb w")
    show "mb' = sd \<and> get_bookmark (state w') (stream_name s) rk = sd"
    proof (cases r1)
      case (Inl e)
      with step body y show ?thesis by simp
    next
      case (Inr st)
      from paginated_body_cursor [OF body [unfolded Inr mb] cur rk]
      have c1: "get_bookmark (state w1) (stream_name s) rk = sd"
        and c2: "case st of Break (n', mb') \<Rightarrow> mb' = sd | Continue (token', n', mb') \<Rightarrow> mb' = sd"
        by simp_all
      show ?thesis
      proof (cases st)
        case (Break r)
        with step body Inr y c1 c2 show ?thesis by auto
      next
        case (Continue x)
        obtain token' n1 mb1 where x: "x = (token', n1, mb1)" by (cases x)
        from step body Inr Continue x have "f rt c s rk sd token' n1 mb1 w1 = Some y" by simp
        from IH [OF this] y c1 c2 Continue x rk show ?thesis by simp
      qed
    qed
  qed
qed

lemma sync_paginated_cursor:
  assumes "sync_paginated rt c s w = Some (Inr n, w')" and "replication_key s = Some rk"
    and "rk \<noteq> ''next_page_token''"
  shows "get_bookmark (state w') (stream_name s) rk = get_bookmark (state w) (stream_name s) rk"
proof -
  let ?sd = "get_bookmark (state w) (stream_name s) rk"
  from assms(1,2) obtain token mb' w1 where
    loop: "paginated_loop rt c s rk ?sd token 0 ?sd w = Some (Inr (n, mb'), w1)"
    and w': "w' = write_state (set_bookmark (stream_name s) rk mb'
        (set_bookmark (stream_name s) ''next_page_token'' VNone w1))"
    by (auto simp: sync_paginated_def Let_def split: option.splits sum.splits prod.splits)
  from paginated_loop_cursor [OF loop] assms(3) w' show ?thesis by simp
qed

lemma update_activity_state_cursor:
  assumes "update_activity_state rt s b VNone VNone w = (Inr u, w')"
    and "replication_key s = Some rk" and "rk \<noteq> ''export_id''" and "rk \<noteq> ''export_end''"
  shows "get_bookmark (state w') (stream_name s) ''export_id'' = VNone
       \<and> get_bookmark (state w') (stream_name s) rk
           = (if truthy rt b then b else get_bookmark (state w) (stream_name s) rk)"
  using assms by (auto simp: update_activity_state_def Let_def split: if_splits)

lemma activities_body_no_export:
  assumes "\<not> truthy rt (get_bookmark (state w) (stream_name s) ''export_id'')"
  shows "\<exists>e. activities_body rt c s n w = (Inl e, w)"
proof -
  from get_or_create_export_missing [OF assms, of c]
  obtain e where "get_or_create_export rt c s w = (Inl e, w)" by blast
  then show ?thesis by (simp add: activities_body_def)
qed

lemma activities_body_success:
  assumes body: "activities_body rt c s n w = (Inr (sp', n'), w5)"
    and rk: "replication_key s = Some rk" "rk \<noteq> ''export_id''" "rk \<noteq> ''export_end''"
  shows "get_bookmark (state w5) (stream_name s) ''export_id'' = VNone
       \<and> (\<exists>e. parse rt e = Inr sp'
              \<and> get_bookmark (state w5) (stream_name s) rk
                  = (if truthy rt e then e else get_bookmark (state w) (stream_name s) rk))"
proof -
  obtain r0 w0 where g: "get_or_create_export rt c s w = (r0, w0)"
    by (cases "get_or_create_export rt c s w")
  from get_or_create_export_frame [OF g] have w0: "w0 = w" .
  from body g obtain eid where r0: "r0 = Inr eid"
    by (cases r0) (simp_all add: activities_body_def)
  let ?w2 = "called (WaitForExport ''activities'' eid) w"
  let ?w3 = "called (StreamExport ''activities'' eid) ?w2"
  from body g r0 w0 obtain first rest headers w4 u where
    drain: "drain_lines rt s headers rest n ?w3 = (Inr n', w4)"
    and upd: "update_activity_state rt s (get_bookmark (state w4) (stream_name s) ''export_end'')
        VNone VNone w4 = (Inr u, w5)"
    and p: "parse rt (get_bookmark (state w4) (stream_name s) ''export_end'') = Inr sp'"
    by (auto simp: activities_body_def Let_def
        split: if_splits list.splits sum.splits prod.splits)
  from drain_lines_frame [OF drain] have st: "state w4 = state w" by simp
  from update_activity_state_cursor [OF upd rk] st p show ?thesis by auto
qed

lemma activities_loop_result:
  assumes loop: "activities_loop rt c s js sp n w = Some (Inr m, w')"
    and rk: "replication_key s = Some rk" "rk \<noteq> ''export_id''" "rk \<noteq> ''export_end''"
  shows "(\<not> instant sp < instant js \<and> w' = w)
       \<or> (instant sp < instant js
           \<and> (\<exists>e sp'. parse rt e = Inr sp' \<and> instant js \<le> instant sp'
                \<and> get_bookmark (state w') (stream_name s) rk
                    = (if truthy rt e then e else get_bookmark (state w) (stream_name s) rk)))"
proof (cases "instant sp < instant js")
  case False
  with loop show ?thesis by (simp add: activities_loop.simps [of rt c s js sp n w])
next
  case True
  obtain r1 w1 where body: "activities_body rt c s n w = (r1, w1)"
    by (cases "activities_body rt c s n w")
  from loop True body obtain sp' n' where r1: "r1 = Inr (sp', n')"
    and next_loop: "activities_loop rt c s js sp' n' w1 = Some (Inr m, w')"
    by (cases r1) (auto simp: activities_loop.simps [of rt c s js sp n w])
  from activities_body_success [OF body [unfolded r1] rk]
  obtain e where cleared: "get_bookmark (state w1) (stream_name s) ''export_id'' = VNone"
    and e: "parse rt e = Inr sp'"
    and cur: "get_bookmark (state w1) (stream_name s) rk
        = (if truthy rt e then e else get_bookmark (state w) (stream_name s) rk)"
    by blast
  from cleared have "\<not> truthy rt (get_bookmark (state w1) (stream_name s) ''export_id'')"
    by simp
  from activities_body_no_export [OF this, of c n']
  obtain err where failing: "activities_body rt c s n' w1 = (Inl err, w1)" by blast
  from next_loop failing have stop: "\<not> instant sp' < instant js" and "w' = w1"
    by (auto simp: activities_loop.simps [of rt c s js sp' n' w1] split: if_splits)
  from stop have "instant js \<le> instant sp'" by simp
  with e cur \<open>w' = w1\<close>
  have "\<exists>e sp'. parse rt e = Inr sp' \<and> instant js \<le> instant sp'
      \<and> get_bookmark (state w') (stream_name s) rk
          = (if truthy rt e then e else get_bookmark (state w) (stream_name s) rk)"
    by blast
  with True show ?thesis by blast
qed

lemma sync_activities_cursor:
  assumes run: "sync_activities rt c s w = Some (Inr n, w')"
    and rk: "replication_key s = Some rk" "rk \<noteq> ''export_id''" "rk \<noteq> ''export_end''"
  shows "cursor_le rt (get_bookmark (state w) (stream_name s) rk)
           (get_bookmark (state w') (stream_name s) rk)"
proof -
  let ?cur = "get_bookmark (state w) (stream_name s) rk"
  let ?w0 = "w\<lparr>tick := Suc (tick w)\<rparr>"
  from run rk(1) obtain sp where sp: "parse rt ?cur = Inr sp"
    and loop: "activities_loop rt c s (utcnow rt (tick w)) sp 0 ?w0 = Some (Inr n, w')"
    by (auto simp: sync_activities_def Let_def split: sum.splits)
  from activities_loop_result [OF loop rk]
  show ?thesis
  proof
    assume "\<not> instant sp < instant (utcnow rt (tick w)) \<and> w' = ?w0"
    then show ?thesis by (simp add: cursor_le_def)
  next
    assume "instant sp < instant (utcnow rt (tick w))
       \<and> (\<exists>e sp'. parse rt e = Inr sp' \<and> instant (utcnow rt (tick w)) \<le> instant sp'
            \<and> get_bookmark (state w') (stream_name s) rk
                = (if truthy rt e then e else get_bookmark (state ?w0) (stream_name s) rk))"
    then obtain e sp' where due: "instant sp < instant (utcnow rt (tick w))"
      and e: "parse rt e = Inr sp'" and late: "instant (utcnow rt (tick w)) \<le> instant sp'"
      and cur: "get_bookmark (state w') (stream_name s) rk
                = (if truthy rt e then e else ?cur)"
      by auto
    show ?thesis
    proof (cases "truthy rt e")
      case True
      with cur sp e due late show ?thesis by (simp add: cursor_le_def)
    next
      case False
      with cur show ?thesis by (simp add: cursor_le_def)
    qed
  qed
qed

lemma programs_rows_frame:
  "programs_rows rt s sd rows n w = (r, w') \<Longrightarrow> state w' = state w \<and> tick w' = tick w"
  by (induction rt s sd rows n w rule: programs_rows.induct)
    (auto split: sum.splits option.splits bool.splits)

lemma programs_body_frame:
  assumes "programs_body rt c s sd ed offset n w = (r, w')"
  shows "state w' = state w \<and> tick w' = Suc (tick w)"
proof -
  let ?w1 = "called (Request ''GET'' ''rest/asset/v1/programs.json'' ''programs''
      (programs_params offset sd ed)) w"
  from assms have "w' = ?w1 \<or> (\<exists>rows m r2. programs_rows rt s sd rows m ?w1 = (r2, w'))"
    by (auto simp: programs_body_def Let_def split: option.splits if_splits sum.splits prod.splits)
  then show ?thesis
    by (auto dest: programs_rows_frame)
qed

lemma programs_loop_state:
  assumes ret: "programs_loop rt c s sd ed offset n w = Some y"
  shows "state (snd y) = state w"
proof (rule programs_loop.raw_induct
    [where P = "\<lambda>rt c s sd ed offset n w y. state (snd y) = state w", OF _ ret])
  fix f rt c s sd ed offset n w y
  assume IH: "\<And>rt c s sd ed offset n w y. f rt c s sd ed offset n w = Some y \<Longrightarrow>
      state (snd y) = state w"
    and step: "(case programs_body rt c s sd ed offset n w of
         (Inl e, w') \<Rightarrow> Some (Inl e, w')
       | (Inr (Break n), w') \<Rightarrow> Some (Inr n, w')
       | (Inr (Continue (offset', record_count')), w') \<Rightarrow>
           f rt c s sd ed offset' record_count' w') = Some y"
  obtain r1 w1 where body: "programs_body rt c s sd ed offset n w = (r1, w1)"
    by (cases "programs_body rt c s sd ed offset n w")
  from programs_body_frame [OF body] have st: "state w1 = state w" by simp
  show "state (snd y) = state w"
  proof (cases r1)
    case (Inl e)
    with step body st show ?thesis by auto
  next
    case (Inr stp)
    show ?thesis
    proof (cases stp)
      case (Break m)
      with step body Inr st show ?thesis by auto
    next
      case (Continue x)
      obtain o' n' where "x = (o', n')" by (cases x)
      with step body Inr Continue have "f rt c s sd ed o' n' w1 = Some y" by simp
      from IH [OF this] st show ?thesis by simp
    qed
  qed
qed

lemma sync_programs_cursor:
  assumes "sync_programs rt c s w = Some (Inr n, w')"
  shows "get_bookmark (state w') ''programs'' ''updatedAt''
     = VStr (isoformat rt (utcnow rt (tick w)))"
  using assms
  by (auto simp: sync_programs_def Let_def split: option.splits sum.splits prod.splits)

lemma ex_parse:
  "parse ex_rt (VStr ''2016-09-02T00:00:00+00:00'') = Inr \<lparr>instant = 1472774400000000, utcoffset = 0\<rparr>"
  "parse ex_rt (VStr ''2016-11-06T00:00:00+00:00'') = Inr \<lparr>instant = 1478390400000000, utcoffset = 0\<rparr>"
  "parse ex_rt (VStr ''2030-01-01T00:00:00+00:00'') = Inr \<lparr>instant = 1893456000000000, utcoffset = 0\<rparr>"
  by (simp_all add: ex_rt_def ex_times_def ex_raw_times_def)

lemma ex_now:
  "utcnow ex_rt t = \<lparr>instant = 1478390400000000, utcoffset = 0\<rparr>"
  "isoformat ex_rt \<lparr>instant = 1478390400000000, utcoffset = 0\<rparr> = ''2016-11-06T00:00:00+00:00''"
  by (simp_all add: ex_rt_def ex_times_def)

lemma ex_program_formatted:
  "format_values ex_rt ex_programs ex_campaign_row = Inr ex_campaign_record"
  using ex_campaign_formatted by (simp add: format_values_def ex_programs_def)

lemma ex_sync_programs:
  assumes sd: "get_bookmark (state w) ''programs'' ''updatedAt'' = sd"
    and ge: "py_cmp ex_rt Ge (VStr ''2016-10-01T00:00:00+00:00'') sd = Inr b"
  shows "sync_programs ex_rt ex_client ex_programs w
     = Some (Inr (if b then 1 else 0),
         write_state (set_bookmark ''programs'' ''updatedAt'' (VStr ''2016-11-06T00:00:00+00:00'')
           (called (Request ''GET'' ''rest/asset/v1/programs.json'' ''programs''
               (programs_params 200 sd ''2016-11-06T00:00:00+00:00''))
              ((if b then write_record ''programs'' ex_campaign_record else id)
                 (called (Request ''GET'' ''rest/asset/v1/programs.json'' ''programs''
                     (programs_params 0 sd ''2016-11-06T00:00:00+00:00''))
                    (w\<lparr>tick := Suc (tick w)\<rparr>))))))"
proof -
  have req0: "request ex_client t ''GET'' ''rest/asset/v1/programs.json'' ''programs''
        (programs_params 0 sd ed)
      = \<lparr>warnings = Some [], result = Some [ex_campaign_row], nextPageToken = None\<rparr>" for t ed
    by (simp add: ex_client_def programs_params_def)
  have req1: "request ex_client t ''GET'' ''rest/asset/v1/programs.json'' ''programs''
        (programs_params 200 sd ed)
      = \<lparr>warnings = Some [NO_ASSET_MSG], result = None, nextPageToken = None\<rparr>" for t ed
    by (simp add: ex_client_def programs_params_def)
  have key: "ex_campaign_record ''updatedAt'' = Some (VStr ''2016-10-01T00:00:00+00:00'')"
    by (simp add: ex_campaign_record_def)
  have rows: "programs_rows ex_rt ex_programs sd [ex_campaign_row] 0 w1
      = (Inr (if b then 1 else 0), (if b then write_record ''programs'' ex_campaign_record else id) w1)"
    for w1
    by (simp add: ex_program_formatted key ge)
  have body0: "programs_body ex_rt ex_client ex_programs sd ed 0 0 w1
      = (Inr (Continue (200, if b then 1 else 0)),
         (if b then write_record ''programs'' ex_campaign_record else id)
           (called (Request ''GET'' ''rest/asset/v1/programs.json'' ''programs''
               (programs_params 0 sd ed)) w1))" for w1 ed
    by (simp add: programs_body_def Let_def req0 rows del: programs_rows.simps)
  have body1: "programs_body ex_rt ex_client ex_programs sd ed 200 m w1
      = (Inr (Break m),
         called (Request ''GET'' ''rest/asset/v1/programs.json'' ''programs''
             (programs_params 200 sd ed)) w1)" for w1 ed m
    by (simp add: programs_body_def Let_def req1)
  show ?thesis
    by (simp add: sync_programs_def Let_def sd ex_now programs_loop.simps body0 body1)
qed

lemma handle_activity_line_alt:
  "handle_activity_line rt s headers line w =
     (case line_record rt s headers line of
        Inl e \<Rightarrow> (Inl e, w)
      | Inr rcd \<Rightarrow>
          (case replication_key s of
             None \<Rightarrow> (Inl (KeyError ''replication_key''), w)
           | Some rk \<Rightarrow>
               (case rcd rk of
                  None \<Rightarrow> (Inl (KeyError rk), w)
                | Some v \<Rightarrow>
                    (case py_cmp rt Lt v (get_bookmark (state w) (stream_name s) rk) of
                       Inl e \<Rightarrow> (Inl e, w)
                     | Inr True \<Rightarrow> (Inr 0, w)
                     | Inr False \<Rightarrow> (Inr 1, write_record (stream_name s) rcd w)))))"
  by (simp add: handle_activity_line_def line_record_def Let_def split: sum.splits option.splits)

lemma ex_parse_headers:
  "parse_csv_line ex_rt ''marketoGUID,leadId,activityDate,activityTypeId,primaryAttributeValue''
     = Inr ex_headers"
  by (simp add: parse_csv_line_def ex_rt_def ex_headers_def)

lemma ex_line_record:
  "line_record ex_rt ex_activities ex_headers ''g1,7,2016-10-01T00:00:00Z,1,home''
     = Inr ex_activity_record"
  by (simp add: line_record_def parse_csv_line_def ex_rt_def ex_headers_def flatten_activity_def
      BASE_ACTIVITY_FIELDS_def ACTIVITY_FIELDS_def ex_activities_def ex_string_field_def
      ex_date_field_def format_values_def format_value_def row_get_def ex_times_def
      ex_raw_times_def ex_activity_record_def)

lemma ex_early_line_record:
  "line_record ex_rt ex_activities ex_headers ''g0,7,2016-09-01T23:59:59Z,1,home''
     = Inr ex_early_record"
  by (simp add: line_record_def parse_csv_line_def ex_rt_def ex_headers_def flatten_activity_def
      BASE_ACTIVITY_FIELDS_def ACTIVITY_FIELDS_def ex_activities_def ex_string_field_def
      ex_date_field_def format_values_def format_value_def row_get_def ex_times_def
      ex_raw_times_def ex_early_record_def)

lemma ex_activities_body:
  assumes cur: "get_bookmark (state w) ''activities_1'' ''activityDate'' = VStr ''2016-09-02T00:00:00+00:00''"
    and eid: "get_bookmark (state w) ''activities_1'' ''export_id'' = VStr ''export-7''"
    and eend: "get_bookmark (state w) ''activities_1'' ''export_end'' = VStr ''2016-11-06T00:00:00+00:00''"
  shows "activities_body ex_rt ex_client ex_activities 0 w
      = (Inr (\<lparr>instant = 1478390400000000, utcoffset = 0\<rparr>, 1),
         write_state
           (set_bookmark ''activities_1'' ''activityDate'' (VStr ''2016-11-06T00:00:00+00:00'')
              (set_bookmark ''activities_1'' ''export_end'' VNone
                 (set_bookmark ''activities_1'' ''export_id'' VNone
                    (write_record ''activities_1'' ex_activity_record
                       (called (StreamExport ''activities'' (VStr ''export-7''))
                          (called (WaitForExport ''activities'' (VStr ''export-7'')) w)))))))"
proof -
  let ?w3 = "called (StreamExport ''activities'' (VStr ''export-7''))
      (called (WaitForExport ''activities'' (VStr ''export-7'')) w)"
  have n: "stream_name ex_activities = ''activities_1''"
    and rk: "replication_key ex_activities = Some ''activityDate''"
    by (simp_all add: ex_activities_def)
  have g: "get_or_create_export ex_rt ex_client ex_activities w = (Inr (VStr ''export-7''), w)"
    using get_or_create_export_bookmarked [of ex_rt w ex_activities ex_client] eid
    by (simp add: n)
  have wait: "wait_for_export ex_client t ''activities'' (VStr ''export-7'')" for t
    by (simp add: ex_client_def)
  have lines: "stream_export ex_client t ''activities'' (VStr ''export-7'')
      = [''marketoGUID,leadId,activityDate,activityTypeId,primaryAttributeValue'',
         ''g1,7,2016-10-01T00:00:00Z,1,home'', ''g0,7,2016-09-01T23:59:59Z,1,home'']" for t
    by (simp add: ex_client_def)
  have keys: "ex_activity_record ''activityDate'' = Some (VStr ''2016-10-01T00:00:00+00:00'')"
    "ex_early_record ''activityDate'' = Some (VStr ''2016-09-01T23:59:59+00:00'')"
    by (simp_all add: ex_activity_record_def ex_early_record_def)
  have lt: "py_cmp ex_rt Lt (VStr ''2016-10-01T00:00:00+00:00'') (VStr ''2016-09-02T00:00:00+00:00'')
      = Inr False"
    "py_cmp ex_rt Lt (VStr ''2016-09-01T23:59:59+00:00'') (VStr ''2016-09-02T00:00:00+00:00'')
      = Inr True"
    by (simp_all add: py_cmp_def)
  have l1: "handle_activity_line ex_rt ex_activities ex_headers ''g1,7,2016-10-01T00:00:00Z,1,home'' w1
      = (Inr 1, write_record ''activities_1'' ex_activity_record w1)"
    if "state w1 = state w" for w1
    using that by (simp add: handle_activity_line_alt ex_line_record rk n keys cur lt)
  have l2: "handle_activity_line ex_rt ex_activities ex_headers ''g0,7,2016-09-01T23:59:59Z,1,home'' w1
      = (Inr 0, w1)"
    if "state w1 = state w" for w1
    using that by (simp add: handle_activity_line_alt ex_early_line_record rk n keys cur lt)
  have drain: "drain_lines ex_rt ex_activities ex_headers
        [''g1,7,2016-10-01T00:00:00Z,1,home'', ''g0,7,2016-09-01T23:59:59Z,1,home''] 0 ?w3
      = (Inr 1, write_record ''activities_1'' ex_activity_record ?w3)"
    by (simp add: l1 l2)
  have upd: "update_activity_state ex_rt ex_activities (VStr ''2016-11-06T00:00:00+00:00'') VNone VNone w1
      = (Inr (), write_state
           (set_bookmark ''activities_1'' ''activityDate'' (VStr ''2016-11-06T00:00:00+00:00'')
              (set_bookmark ''activities_1'' ''export_end'' VNone
                 (set_bookmark ''activities_1'' ''export_id'' VNone w1))))" for w1
    by (simp add: update_activity_state_def rk n)
  show ?thesis
    by (simp add: activities_body_def g wait lines ex_parse_headers drain n eend upd ex_parse Let_def
        del: drain_lines.simps)
qed

lemma ex_sync_activities:
  assumes cur: "get_bookmark (state w) ''activities_1'' ''activityDate'' = VStr ''2016-09-02T00:00:00+00:00''"
    and eid: "get_bookmark (state w) ''activities_1'' ''export_id'' = VStr ''export-7''"
    and eend: "get_bookmark (state w) ''activities_1'' ''export_end'' = VStr ''2016-11-06T00:00:00+00:00''"
  shows "sync_activities ex_rt ex_client ex_activities w
     = Some (Inr 1,
         write_state
           (set_bookmark ''activities_1'' ''activityDate'' (VStr ''2016-11-06T00:00:00+00:00'')
              (set_bookmark ''activities_1'' ''export_end'' VNone
                 (set_bookmark ''activities_1'' ''export_id'' VNone
                    (write_record ''activities_1'' ex_activity_record
                       (called (StreamExport ''activities'' (VStr ''export-7''))
                          (called (WaitForExport ''activities'' (VStr ''export-7''))
                             (w\<lparr>tick := Suc (tick w)\<rparr>))))))))"
proof -
  let ?w0 = "w\<lparr>tick := Suc (tick w)\<rparr>"
  have n: "stream_name ex_activities = ''activities_1''"
    and rk: "replication_key ex_activities = Some ''activityDate''"
    by (simp_all add: ex_activities_def)
  have body: "activities_body ex_rt ex_client ex_activities 0 ?w0
      = (Inr (\<lparr>instant = 1478390400000000, utcoffset = 0\<rparr>, 1),
         write_state
           (set_bookmark ''activities_1'' ''activityDate'' (VStr ''2016-11-06T00:00:00+00:00'')
              (set_bookmark ''activities_1'' ''export_end'' VNone
                 (set_bookmark ''activities_1'' ''export_id'' VNone
                    (write_record ''activities_1'' ex_activity_record
                       (called (StreamExport ''activities'' (VStr ''export-7''))
                          (called (WaitForExport ''activities'' (VStr ''export-7'')) ?w0)))))))"
    by (rule ex_activities_body) (simp_all add: cur eid eend)
  show ?thesis
    by (simp add: sync_activities_def rk n cur ex_parse ex_now activities_loop.simps body)
qed

text \<open>
  C7, as amended. For a stream with a replication key and a completed invocation:
  \<^verbatim>\<open>sync_paginated\<close> and \<^verbatim>\<open>sync_activities\<close> leave a cursor that is not earlier than the
  one in state when the invocation began; \<^verbatim>\<open>sync_programs\<close> writes the current time as
  the cursor, which is not earlier than the starting cursor whenever the starting cursor
  is not later than the current time (and the runtime parses back the timestamp it
  renders). The replication key is taken to be different from the bookkeeping keys
  \<^verbatim>\<open>next_page_token\<close>, \<^verbatim>\<open>export_id\<close> and \<^verbatim>\<open>export_end\<close> that the same strategy writes.
\<close>

theorem cursor_not_moved_back:
  assumes rk: "replication_key s = Some rk"
  shows "(rk \<noteq> ''next_page_token'' \<and> sync_paginated rt c s w = Some (Inr n, w')
            \<longrightarrow> cursor_le rt (get_bookmark (state w) (stream_name s) rk)
                  (get_bookmark (state w') (stream_name s) rk))
       \<and> (rk \<noteq> ''export_id'' \<and> rk \<noteq> ''export_end'' \<and> sync_activities rt c s w = Some (Inr n, w')
            \<longrightarrow> cursor_le rt (get_bookmark (state w) (stream_name s) rk)
                  (get_bookmark (state w') (stream_name s) rk))
       \<and> (sync_programs rt c s w = Some (Inr n, w')
            \<longrightarrow> get_bookmark (state w') ''programs'' ''updatedAt''
                  = VStr (isoformat rt (utcnow rt (tick w)))
              \<and> (\<forall>d. parse rt (get_bookmark (state w) ''programs'' ''updatedAt'') = Inr d
                     \<and> instant d \<le> instant (utcnow rt (tick w))
                     \<and> parse rt (VStr (isoformat rt (utcnow rt (tick w)))) = Inr (utcnow rt (tick w))
                   \<longrightarrow> cursor_le rt (get_bookmark (state w) ''programs'' ''updatedAt'')
                         (get_bookmark (state w') ''programs'' ''updatedAt'')))"
proof (intro conjI impI allI)
  assume "rk \<noteq> ''next_page_token'' \<and> sync_paginated rt c s w = Some (Inr n, w')"
  then have "get_bookmark (state w') (stream_name s) rk = get_bookmark (state w) (stream_name s) rk"
    using sync_paginated_cursor [OF _ rk] by blast
  then show "cursor_le rt (get_bookmark (state w) (stream_name s) rk)
      (get_bookmark (state w') (stream_name s) rk)"
    by (simp add: cursor_le_def)
next
  assume "rk \<noteq> ''export_id'' \<and> rk \<noteq> ''export_end'' \<and> sync_activities rt c s w = Some (Inr n, w')"
  then show "cursor_le rt (get_bookmark (state w) (stream_name s) rk)
      (get_bookmark (state w') (stream_name s) rk)"
    using sync_activities_cursor [OF _ rk] by blast
next
  assume "sync_programs rt c s w = Some (Inr n, w')"
  then show "get_bookmark (state w') ''programs'' ''updatedAt''
      = VStr (isoformat rt (utcnow rt (tick w)))"
    by (rule sync_programs_cursor)
next
  fix d
  assume run: "sync_programs rt c s w = Some (Inr n, w')"
    and "parse rt (get_bookmark (state w) ''programs'' ''updatedAt'') = Inr d
       \<and> instant d \<le> instant (utcnow rt (tick w))
       \<and> parse rt (VStr (isoformat rt (utcnow rt (tick w)))) = Inr (utcnow rt (tick w))"
  with sync_programs_cursor [OF run]
  show "cursor_le rt (get_bookmark (state w) ''programs'' ''updatedAt'')
      (get_bookmark (state w') ''programs'' ''updatedAt'')"
    by (simp add: cursor_le_def)
qed

lemma ex_bookmarks:
  "get_bookmark (state ex_paged) ''campaigns'' ''updatedAt'' = VStr ''2016-09-02T00:00:00+00:00''"
  "get_bookmark (state ex_paged) ''campaigns'' ''next_page_token'' = VNone"
  "get_bookmark (state ex_future) ''programs'' ''updatedAt'' = VStr ''2030-01-01T00:00:00+00:00''"
  "get_bookmark (state ex_programs_started) ''programs'' ''updatedAt'' = VStr ''2016-09-02T00:00:00+00:00''"
  "get_bookmark (state ex_resumed_export) ''activities_1'' ''activityDate'' = VStr ''2016-09-02T00:00:00+00:00''"
  "get_bookmark (state ex_resumed_export) ''activities_1'' ''export_id'' = VStr ''export-7''"
  "get_bookmark (state ex_resumed_export) ''activities_1'' ''export_end'' = VStr ''2016-11-06T00:00:00+00:00''"
  by (simp_all add: ex_paged_def ex_future_def ex_programs_started_def ex_resumed_export_def
      ex_world_def get_bookmark_def)

text \<open>
  C1. The claim says that a completed \<^verbatim>\<open>sync_paginated\<close> leaves the cursor at the largest
  replication-key value among the rows it emitted. On a state whose \<^verbatim>\<open>campaigns\<close> cursor is
  2016-09-02 and a single page holding one row updated at 2016-10-01, the run completes,
  emits that row, and writes back the cursor it started with, 2016-09-02.
\<close>

theorem sync_paginated_keeps_starting_cursor:
  "sync_paginated ex_rt ex_client ex_campaigns ex_paged = Some (Inr 1, ex_paged_end)
   \<and> out ex_paged_end =
       [Request ''GET'' ''rest/v1/campaigns.json'' ''campaigns'' [(''batchSize'', VInt 300)],
        WriteRecord ''campaigns'' ex_campaign_record, WriteState (state ex_paged_end)]
   \<and> ex_campaign_record ''updatedAt'' = Some (VStr ''2016-10-01T00:00:00+00:00'')
   \<and> get_bookmark (state ex_paged) ''campaigns'' ''updatedAt'' = VStr ''2016-09-02T00:00:00+00:00''
   \<and> get_bookmark (state ex_paged_end) ''campaigns'' ''updatedAt'' = VStr ''2016-09-02T00:00:00+00:00''"
proof -
  have "sync_paginated ex_rt ex_client ex_campaigns ex_paged = Some (Inr 1, ex_paged_end)"
    unfolding ex_paged_end_def by (rule ex_paginated_campaigns) (rule ex_bookmarks)+
  moreover have "out ex_paged = []"
    by (simp add: ex_paged_def ex_world_def)
  then have "out ex_paged_end =
       [Request ''GET'' ''rest/v1/campaigns.json'' ''campaigns'' [(''batchSize'', VInt 300)],
        WriteRecord ''campaigns'' ex_campaign_record, WriteState (state ex_paged_end)]"
    by (simp add: ex_paged_end_def)
  moreover have "ex_campaign_record ''updatedAt'' = Some (VStr ''2016-10-01T00:00:00+00:00'')"
    by (simp add: ex_campaign_record_def)
  moreover have "get_bookmark (state ex_paged_end) ''campaigns'' ''updatedAt''
      = VStr ''2016-09-02T00:00:00+00:00''"
    by (simp add: ex_paged_end_def)
  ultimately show ?thesis using ex_bookmarks(1) by (intro conjI)
qed

text \<open>
  C7 as stated fails for \<^verbatim>\<open>sync_programs\<close>: from a cursor of 2030-01-01 with the clock at
  2016-11-06, the completed run leaves the cursor at 2016-11-06, which is earlier.
\<close>

theorem sync_programs_moves_cursor_back:
  "sync_programs ex_rt ex_client ex_programs ex_future = Some (Inr 0, ex_future_end)
   \<and> get_bookmark (state ex_future) ''programs'' ''updatedAt'' = VStr ''2030-01-01T00:00:00+00:00''
   \<and> get_bookmark (state ex_future_end) ''programs'' ''updatedAt'' = VStr ''2016-11-06T00:00:00+00:00''
   \<and> \<not> cursor_le ex_rt (VStr ''2030-01-01T00:00:00+00:00'') (VStr ''2016-11-06T00:00:00+00:00'')
   \<and> py_cmp ex_rt Lt (VStr ''2016-11-06T00:00:00+00:00'') (VStr ''2030-01-01T00:00:00+00:00'')
       = Inr True"
proof -
  have ge: "py_cmp ex_rt Ge (VStr ''2016-10-01T00:00:00+00:00'') (VStr ''2030-01-01T00:00:00+00:00'')
      = Inr False"
    by (simp add: py_cmp_def str_le_def)
  from ex_sync_programs [OF ex_bookmarks(3) ge]
  have "sync_programs ex_rt ex_client ex_programs ex_future = Some (Inr 0, ex_future_end)"
    by (simp add: ex_future_end_def)
  moreover have "get_bookmark (state ex_future_end) ''programs'' ''updatedAt''
      = VStr ''2016-11-06T00:00:00+00:00''"
    by (simp add: ex_future_end_def)
  moreover have "\<not> cursor_le ex_rt (VStr ''2030-01-01T00:00:00+00:00'')
      (VStr ''2016-11-06T00:00:00+00:00'')"
    by (simp add: cursor_le_def ex_parse)
  moreover have "py_cmp ex_rt Lt (VStr ''2016-11-06T00:00:00+00:00'')
      (VStr ''2030-01-01T00:00:00+00:00'') = Inr True"
    by (simp add: py_cmp_def)
  ultimately show ?thesis using ex_bookmarks(3) by (intro conjI)
qed

text \<open>C7, as amended, at one completed run of each strategy.\<close>

theorem cursor_not_moved_back_witness:
  "replication_key ex_campaigns = Some ''updatedAt''
   \<and> replication_key ex_activities = Some ''activityDate''
   \<and> (\<exists>w'. sync_paginated ex_rt ex_client ex_campaigns ex_paged = Some (Inr 1, w')
         \<and> cursor_le ex_rt (get_bookmark (state ex_paged) (stream_name ex_campaigns) ''updatedAt'')
             (get_bookmark (state w') (stream_name ex_campaigns) ''updatedAt''))
   \<and> (\<exists>w'. sync_activities ex_rt ex_client ex_activities ex_resumed_export = Some (Inr 1, w')
         \<and> cursor_le ex_rt
             (get_bookmark (state ex_resumed_export) (stream_name ex_activities) ''activityDate'')
             (get_bookmark (state w') (stream_name ex_activities) ''activityDate''))
   \<and> (\<exists>w'. sync_programs ex_rt ex_client ex_programs ex_programs_started = Some (Inr 1, w')
         \<and> cursor_le ex_rt (get_bookmark (state ex_programs_started) ''programs'' ''updatedAt'')
             (get_bookmark (state w') ''programs'' ''updatedAt''))"
proof -
  have rkc: "replication_key ex_campaigns = Some ''updatedAt''"
    and rka: "replication_key ex_activities = Some ''activityDate''"
    and rkp: "replication_key ex_programs = Some ''updatedAt''"
    by (simp_all add: ex_campaigns_def ex_activities_def ex_programs_def)
  from ex_paginated_campaigns [OF ex_bookmarks(1,2)]
  obtain w1 where r1: "sync_paginated ex_rt ex_client ex_campaigns ex_paged = Some (Inr 1, w1)"
    by blast
  from cursor_not_moved_back [OF rkc, of ex_rt ex_client ex_paged 1 w1] r1
  have c1: "cursor_le ex_rt (get_bookmark (state ex_paged) (stream_name ex_campaigns) ''updatedAt'')
      (get_bookmark (state w1) (stream_name ex_campaigns) ''updatedAt'')"
    by simp
  from ex_sync_activities [OF ex_bookmarks(5,6,7)]
  obtain w2 where r2: "sync_activities ex_rt ex_client ex_activities ex_resumed_export
      = Some (Inr 1, w2)"
    by blast
  from cursor_not_moved_back [OF rka, of ex_rt ex_client ex_resumed_export 1 w2] r2
  have c2: "cursor_le ex_rt
      (get_bookmark (state ex_resumed_export) (stream_name ex_activities) ''activityDate'')
      (get_bookmark (state w2) (stream_name ex_activities) ''activityDate'')"
    by simp
  have ge: "py_cmp ex_rt Ge (VStr ''2016-10-01T00:00:00+00:00'') (VStr ''2016-09-02T00:00:00+00:00'')
      = Inr True"
    by (rule ex_ge)
  from ex_sync_programs [OF ex_bookmarks(4) ge]
  obtain w3 where r3: "sync_programs ex_rt ex_client ex_programs ex_programs_started
      = Some (Inr 1, w3)"
    by auto
  have "parse ex_rt (get_bookmark (state ex_programs_started) ''programs'' ''updatedAt'')
        = Inr \<lparr>instant = 1472774400000000, utcoffset = 0\<rparr>
      \<and> instant \<lparr>instant = 1472774400000000, utcoffset = 0\<rparr>
          \<le> instant (utcnow ex_rt (tick ex_programs_started))
      \<and> parse ex_rt (VStr (isoformat ex_rt (utcnow ex_rt (tick ex_programs_started))))
          = Inr (utcnow ex_rt (tick ex_programs_started))"
    by (simp add: ex_bookmarks ex_parse ex_now)
  with cursor_not_moved_back [OF rkp, of ex_rt ex_client ex_programs_started 1 w3] r3
  have c3: "cursor_le ex_rt (get_bookmark (state ex_programs_started) ''programs'' ''updatedAt'')
      (get_bookmark (state w3) ''programs'' ''updatedAt'')"
    by blast
  from rkc rka r1 c1 r2 c2 r3 c3 show ?thesis by blast
qed

section \<open>Which records are emitted\<close>

lemma written_append [simp]: "written (xs @ ys) = written xs @ written ys"
  by (induction xs rule: written.induct) simp_all















section \<open>When the offset pagination stops\<close>

lemma requests_append [simp]: "requests (xs @ ys) = requests xs @ requests ys"
  by (induction xs rule: requests.induct) simp_all






end
